theory Spec2Isabelle
  imports Complex_Main
begin

section \<open>Physical quantities\<close>

text \<open>
  The source tags every array with a unit (\<^verbatim>\<open>astropy.units.Quantity\<close>). A unit is kept
  here as its physical dimensions (exponents of energy, angle, area and time) and the
  number of canonical units (TeV, degree, square metre, second) that one of it holds.
  Floating-point numbers are real numbers here; where the code can produce a float that
  is no number (NaN, minus infinity), the value is of the type \<open>fl\<close> below, which has
  them.
\<close>

type_synonym dims = "rat \<times> rat \<times> rat \<times> rat"

record punit =
  dims :: dims
  scale :: real

definition energy_dims :: dims where "energy_dims = (1, 0, 0, 0)"
definition angle_dims :: dims where "angle_dims = (0, 1, 0, 0)"
definition area_dims :: dims where "area_dims = (0, 0, 1, 0)"
definition time_dims :: dims where "time_dims = (0, 0, 0, 1)"

definition TeV :: punit where "TeV = \<lparr>dims = energy_dims, scale = 1\<rparr>"
definition GeV :: punit where "GeV = \<lparr>dims = energy_dims, scale = 1 / 1000\<rparr>"
definition degree :: punit where "degree = \<lparr>dims = angle_dims, scale = 1\<rparr>"
definition arcmin :: punit where "arcmin = \<lparr>dims = angle_dims, scale = 1 / 60\<rparr>"
definition m2 :: punit where "m2 = \<lparr>dims = area_dims, scale = 1\<rparr>"
definition cm2 :: punit where "cm2 = \<lparr>dims = area_dims, scale = 1 / 10000\<rparr>"
definition second :: punit where "second = \<lparr>dims = time_dims, scale = 1\<rparr>"

record 'a quantity =
  q_value :: 'a
  q_unit :: punit

datatype error =
    ValueError string
  | NotImplementedError string
  | UnitConversionError
  | AttributeError string
  | TypeError
  | IndexError
  | InterpolatorError

text \<open>An exception ends the computation: the steps after it are not taken.\<close>

definition bind :: "error + 'a \<Rightarrow> ('a \<Rightarrow> error + 'b) \<Rightarrow> error + 'b" where
  "bind r f = (case r of Inl e \<Rightarrow> Inl e | Inr v \<Rightarrow> f v)"

text \<open>
  \<^verbatim>\<open>q.to(target)\<close>: the values are rescaled when the dimensions agree, and the
  conversion raises otherwise. \<open>mapf\<close> is the map of the container the values sit in.
\<close>

definition q_to :: "((real \<Rightarrow> real) \<Rightarrow> 'a \<Rightarrow> 'a) \<Rightarrow> punit \<Rightarrow> 'a quantity \<Rightarrow> error + 'a quantity" where
  "q_to mapf target q =
     (if dims (q_unit q) = dims target
      then Inr \<lparr>q_value = mapf (\<lambda>v. v * scale (q_unit q) / scale target) (q_value q),
                q_unit = target\<rparr>
      else Inl UnitConversionError)"

text \<open>
  numpy broadcasting of two one-dimensional arrays under an element-wise operation:
  equal lengths pair up, a length-one array is stretched, anything else cannot be
  broadcast.
\<close>

definition broadcast2 :: "('a \<Rightarrow> 'b \<Rightarrow> 'c) \<Rightarrow> 'a list \<Rightarrow> 'b list \<Rightarrow> 'c list option" where
  "broadcast2 f xs ys =
     (if length xs = length ys then Some (map2 f xs ys)
      else if length xs = 1 then Some (map (f (hd xs)) ys)
      else if length ys = 1 then Some (map (\<lambda>x. f x (hd ys)) xs)
      else None)"

section \<open>Counts spectrum (gammapy/spectrum/counts\_spectrum.py)\<close>

text \<open>A value of the metadata bag: a quantity, a plain number or a text.\<close>

datatype metaval = MQuantity real punit | MNumber real | MText string

type_synonym bunch = "string \<rightharpoonup> metaval"

text \<open>\<^verbatim>\<open>dict.setdefault\<close>: the key keeps its value when it has one.\<close>

definition setdefault :: "bunch \<Rightarrow> string \<Rightarrow> metaval \<Rightarrow> bunch" where
  "setdefault m k v = (case m k of None \<Rightarrow> m(k \<mapsto> v) | Some _ \<Rightarrow> m)"

text \<open>Attribute access on the bag raises when the key is missing.\<close>

definition getattr :: "bunch \<Rightarrow> string \<Rightarrow> error + metaval" where
  "getattr m k = (case m k of None \<Rightarrow> Inl (AttributeError k) | Some v \<Rightarrow> Inr v)"

text \<open>
  Python's \<^verbatim>\<open>+\<close> on two metadata values. Two quantities add in the unit of the
  left one. A plain number adds to a quantity only when the quantity has no dimension or
  the number is zero.
\<close>

fun meta_add :: "metaval \<Rightarrow> metaval \<Rightarrow> error + metaval" where
  "meta_add (MQuantity a u) (MQuantity b w) =
     (if dims u = dims w then Inr (MQuantity (a + b * scale w / scale u) u)
      else Inl UnitConversionError)"
| "meta_add (MNumber a) (MNumber b) = Inr (MNumber (a + b))"
| "meta_add (MText a) (MText b) = Inr (MText (a @ b))"
| "meta_add (MQuantity a u) (MNumber b) =
     (if dims u = (0, 0, 0, 0) \<or> b = 0 then Inr (MQuantity (a + b / scale u) u)
      else Inl UnitConversionError)"
| "meta_add (MNumber a) (MQuantity b w) =
     (if dims w = (0, 0, 0, 0) \<or> a = 0 then Inr (MQuantity (a / scale w + b) w)
      else Inl UnitConversionError)"
| "meta_add _ _ = Inl TypeError"

text \<open>
  Modelled from the spec: \<^verbatim>\<open>EnergyBounds\<close> (gammapy/utils/energy.py) is the
  unit-tagged array of bin edges of an energy grid; \<open>nbins\<close> is the number of bins
  between the edges, one less than the number of edges.
\<close>

type_synonym EnergyBounds = "real list quantity"

definition nbins :: "EnergyBounds \<Rightarrow> int" where
  "nbins e = int (length (q_value e)) - 1"

record CountsSpectrum =
  counts :: "real list"
  energy_bounds :: EnergyBounds
  meta :: bunch
  channels :: "nat list"

definition CountsSpectrum_init ::
  "real list \<Rightarrow> EnergyBounds \<Rightarrow> bunch option \<Rightarrow> error + CountsSpectrum" where
  "CountsSpectrum_init cnts energy meta_arg =
     (if int (length cnts) \<noteq> nbins energy
      then Inl (ValueError ''Dimension of counts and energy do not match'')
      else
        let bunch0 = (case meta_arg of None \<Rightarrow> Map.empty | Some m \<Rightarrow> m);
            bunch1 = setdefault bunch0 ''livetime'' (MQuantity 0 second);
            bunch2 = setdefault bunch1 ''backscal'' (MNumber 1)
        in Inr \<lparr>counts = cnts, energy_bounds = energy, meta = bunch2,
                 channels = [1 ..< nat (nbins energy + 1)]\<rparr>)"

text \<open>
  \<^verbatim>\<open>self.energy_bounds != other.energy_bounds\<close>: the other edges are brought to the
  unit of the first and compared element by element, under broadcasting.
\<close>

definition bounds_ne :: "EnergyBounds \<Rightarrow> EnergyBounds \<Rightarrow> error + bool list" where
  "bounds_ne a b =
     (case q_to map (q_unit a) b of
        Inl e \<Rightarrow> Inl e
      | Inr b' \<Rightarrow>
          (case broadcast2 (\<lambda>x y. x \<noteq> y) (q_value a) (q_value b') of
             None \<Rightarrow> Inl (ValueError ''operands could not be broadcast together'')
           | Some bs \<Rightarrow> Inr bs))"

definition add :: "CountsSpectrum \<Rightarrow> CountsSpectrum \<Rightarrow> error + CountsSpectrum" where
  "add self other =
     (case bounds_ne (energy_bounds self) (energy_bounds other) of
        Inl e \<Rightarrow> Inl e
      | Inr bs \<Rightarrow>
          if list_all (\<lambda>b. b) bs
          then Inl (ValueError ''Cannot add counts spectra with different binning'')
          else
            (case broadcast2 (+) (counts self) (counts other) of
               None \<Rightarrow> Inl (ValueError ''operands could not be broadcast together'')
             | Some cnts \<Rightarrow>
                 (case getattr (meta self) ''livetime'' of
                    Inl e \<Rightarrow> Inl e
                  | Inr l1 \<Rightarrow>
                      (case getattr (meta other) ''livetime'' of
                         Inl e \<Rightarrow> Inl e
                       | Inr l2 \<Rightarrow>
                           (case meta_add l1 l2 of
                              Inl e \<Rightarrow> Inl e
                            | Inr l \<Rightarrow>
                                CountsSpectrum_init cnts (energy_bounds self)
                                  (Some [''livetime'' \<mapsto> l]))))))"

definition mul :: "CountsSpectrum \<Rightarrow> real \<Rightarrow> error + CountsSpectrum" where
  "mul self other =
     (let temp = map (\<lambda>c. c * other) (counts self)
      in case getattr (meta self) ''livetime'' of
           Inl e \<Rightarrow> Inl e
         | Inr l \<Rightarrow> CountsSpectrum_init temp (energy_bounds self) (Some [''livetime'' \<mapsto> l]))"

text \<open>
  \<^verbatim>\<open>numpy.histogram(a, bins)\<close> with explicit edges: the edges must not decrease; bin
  \<open>k\<close> counts the entries in \<open>[bins[k], bins[k+1])\<close>, and the last bin also takes its
  upper edge.
\<close>

definition in_bin :: "real list \<Rightarrow> nat \<Rightarrow> real \<Rightarrow> bool" where
  "in_bin bins k a =
     (bins ! k \<le> a \<and> (a < bins ! Suc k \<or> (Suc (Suc k) = length bins \<and> a = bins ! Suc k)))"

definition np_histogram :: "real list \<Rightarrow> real list \<Rightarrow> error + real list" where
  "np_histogram a bins =
     (if \<not> sorted bins then Inl (ValueError ''bins must increase monotonically'')
      else Inr (map (\<lambda>k. real (length (filter (in_bin bins k) a))) [0 ..< length bins - 1]))"

text \<open>
  Modelled from the spec: an event list (gammapy/data) carries the energies of its
  events and the live-time duration of the observation. The three other accepted
  arguments (a FITS table, a dataset, a file name) are first turned into an event list;
  reading one is the parameter \<open>rd\<close>.
\<close>

record EventList =
  ev_energy :: "real list quantity"
  observation_live_time_duration :: metaval

datatype 'src event_arg =
    BinTableHDU 'src
  | EventListDataset EventList
  | Filename 'src
  | Events EventList

definition event_list_of :: "('src \<Rightarrow> EventList) \<Rightarrow> 'src event_arg \<Rightarrow> EventList" where
  "event_list_of rd event_list =
     (case event_list of
        BinTableHDU h \<Rightarrow> rd h
      | EventListDataset d \<Rightarrow> d
      | Filename f \<Rightarrow> rd f
      | Events e \<Rightarrow> e)"

definition from_eventlist ::
  "('src \<Rightarrow> EventList) \<Rightarrow> 'src event_arg \<Rightarrow> EnergyBounds \<Rightarrow> error + CountsSpectrum" where
  "from_eventlist rd event_list bins =
     (let ev = event_list_of rd event_list
      in case q_to map (q_unit bins) (ev_energy ev) of
           Inl e \<Rightarrow> Inl e
         | Inr en \<Rightarrow>
             (case np_histogram (q_value en) (q_value bins) of
                Inl e \<Rightarrow> Inl e
              | Inr val \<Rightarrow>
                  let livetime = observation_live_time_duration ev;
                      meta_local = [''livetime'' \<mapsto> livetime]
                  in CountsSpectrum_init val bins None))"

section \<open>Effective area tables (gammapy/irf/effective\_area\_table.py)\<close>

text \<open>
  An argument as Python hands it over: an object that is no \<^verbatim>\<open>Quantity\<close>, a
  \<^verbatim>\<open>Quantity\<close>, or an \<^verbatim>\<open>Angle\<close> (a subclass of \<^verbatim>\<open>Quantity\<close>).
\<close>

datatype 'a pyobj = Plain 'a | Quantity "'a quantity" | Angle "'a quantity"

text \<open>\<^verbatim>\<open>isinstance(x, Quantity)\<close> and \<^verbatim>\<open>isinstance(x, Angle)\<close>, with the object seen
  as that class.\<close>

fun as_Quantity :: "'a pyobj \<Rightarrow> 'a quantity option" where
  "as_Quantity (Plain _) = None"
| "as_Quantity (Quantity q) = Some q"
| "as_Quantity (Angle q) = Some q"

fun as_Angle :: "'a pyobj \<Rightarrow> 'a quantity option" where
  "as_Angle (Plain _) = None"
| "as_Angle (Quantity _) = None"
| "as_Angle (Angle q) = Some q"

text \<open>
  A float that a computation returns: a number, minus infinity, or NaN.
\<close>

datatype fl = Fin real | NegInf | NaN

definition np_sqrt :: "real \<Rightarrow> fl" where
  "np_sqrt x = (if 0 \<le> x then Fin (sqrt x) else NaN)"

definition np_log10 :: "real \<Rightarrow> fl" where
  "np_log10 x = (if 0 < x then Fin (log 10 x) else if x = 0 then NegInf else NaN)"

fun np_log10_fl :: "fl \<Rightarrow> fl" where
  "np_log10_fl (Fin x) = np_log10 x"
| "np_log10_fl NegInf = NaN"
| "np_log10_fl NaN = NaN"

text \<open>The order of floats: NaN is below and above nothing.\<close>

fun fl_less :: "fl \<Rightarrow> fl \<Rightarrow> bool" where
  "fl_less (Fin a) (Fin b) = (a < b)"
| "fl_less NegInf (Fin b) = True"
| "fl_less _ _ = False"

subsection \<open>TableEffectiveArea\<close>

text \<open>
  Modelled from the spec: \<^verbatim>\<open>validate_physical_type\<close> (gammapy/extern/validator.py)
  accepts a quantity of the required physical type and fails on anything else.
\<close>

definition validate_physical_type :: "string \<Rightarrow> 'a pyobj \<Rightarrow> dims \<Rightarrow> error + 'a quantity" where
  "validate_physical_type name v physical_type =
     (case as_Quantity v of
        None \<Rightarrow> Inl (ValueError (name @ '' should be given as a Quantity object.''))
      | Some q \<Rightarrow> if dims (q_unit q) \<noteq> physical_type then Inl TypeError else Inr q)"

record TableEffectiveArea =
  energy_hi :: "real list quantity"
  energy_lo :: "real list quantity"
  effective_area :: "real list quantity"
  energy_thresh_lo :: "real quantity"
  energy_thresh_hi :: "real quantity"

definition TableEffectiveArea_init ::
  "real list pyobj \<Rightarrow> real list pyobj \<Rightarrow> real list pyobj \<Rightarrow> real pyobj option \<Rightarrow>
   real pyobj option \<Rightarrow> error + TableEffectiveArea" where
  "TableEffectiveArea_init e_lo e_hi eff_a thresh_lo thresh_hi =
     (let t_lo = (case thresh_lo of
                    None \<Rightarrow> Quantity \<lparr>q_value = 1 / 10, q_unit = TeV\<rparr> | Some t \<Rightarrow> t);
          t_hi = (case thresh_hi of
                    None \<Rightarrow> Quantity \<lparr>q_value = 100, q_unit = TeV\<rparr> | Some t \<Rightarrow> t)
      in
      bind (validate_physical_type ''energy_lo'' e_lo energy_dims) (\<lambda>lo.
      bind (validate_physical_type ''energy_hi'' e_hi energy_dims) (\<lambda>hi.
      bind (validate_physical_type ''effective_area'' eff_a area_dims) (\<lambda>ar.
      bind (validate_physical_type ''energy_thresh_lo'' t_lo energy_dims) (\<lambda>tl.
      bind (validate_physical_type ''energy_thresh_hi'' t_hi energy_dims) (\<lambda>th.
      bind (q_to map TeV hi) (\<lambda>hi'.
      bind (q_to map TeV lo) (\<lambda>lo'.
      bind (q_to map m2 ar) (\<lambda>ar'.
      bind (q_to (\<lambda>f. f) TeV tl) (\<lambda>tl'.
      bind (q_to (\<lambda>f. f) TeV th) (\<lambda>th'.
        Inr \<lparr>energy_hi = hi', energy_lo = lo', effective_area = ar',
             energy_thresh_lo = tl', energy_thresh_hi = th'\<rparr>)))))))))))"

text \<open>\<^verbatim>\<open>numpy.argmin\<close>: the first index of the least entry; an empty array raises.\<close>

primrec argmin_from :: "real list \<Rightarrow> nat \<Rightarrow> real \<Rightarrow> nat \<Rightarrow> nat" where
  "argmin_from [] i best best_i = best_i"
| "argmin_from (x # xs) i best best_i =
     (if x < best then argmin_from xs (Suc i) x i else argmin_from xs (Suc i) best best_i)"

definition np_argmin :: "real list \<Rightarrow> error + nat" where
  "np_argmin xs =
     (case xs of
        [] \<Rightarrow> Inl (ValueError ''attempt to get argmin of an empty sequence'')
      | x # rest \<Rightarrow> Inr (argmin_from rest 1 x 0))"

definition effective_area_at_energy ::
  "TableEffectiveArea \<Rightarrow> real pyobj \<Rightarrow> error + real quantity" where
  "effective_area_at_energy self en =
     (case as_Quantity en of
        None \<Rightarrow> Inl (ValueError ''energy must be a Quantity object.'')
      | Some e \<Rightarrow>
          bind (q_to (\<lambda>f. f) (q_unit (energy_hi self)) e) (\<lambda>e'.
          bind (np_argmin (map (\<lambda>h. \<bar>h - q_value e'\<bar>) (q_value (energy_hi self)))) (\<lambda>i.
            if i < length (q_value (effective_area self))
            then Inr \<lparr>q_value = q_value (effective_area self) ! i,
                      q_unit = q_unit (effective_area self)\<rparr>
            else Inl IndexError)))"

subsection \<open>Arithmetic on quantities\<close>

definition dims_add :: "dims \<Rightarrow> dims \<Rightarrow> dims" where
  "dims_add d e =
     (case (d, e) of ((a, b, c, t), (a', b', c', t')) \<Rightarrow> (a + a', b + b', c + c', t + t'))"

definition dims_half :: "dims \<Rightarrow> dims" where
  "dims_half d = (case d of (a, b, c, t) \<Rightarrow> (a / 2, b / 2, c / 2, t / 2))"

text \<open>\<^verbatim>\<open>a + b\<close> on quantities: the sum is in the unit of the left operand.\<close>

definition q_add :: "real list quantity \<Rightarrow> real list quantity \<Rightarrow> error + real list quantity" where
  "q_add a b =
     bind (q_to map (q_unit a) b) (\<lambda>b'.
       case broadcast2 (+) (q_value a) (q_value b') of
         None \<Rightarrow> Inl (ValueError ''operands could not be broadcast together'')
       | Some v \<Rightarrow> Inr \<lparr>q_value = v, q_unit = q_unit a\<rparr>)"

text \<open>\<^verbatim>\<open>a * b\<close> on quantities: the values multiply as they are, and so do the units.\<close>

definition q_mul :: "real list quantity \<Rightarrow> real list quantity \<Rightarrow> error + real list quantity" where
  "q_mul a b =
     (case broadcast2 (*) (q_value a) (q_value b) of
        None \<Rightarrow> Inl (ValueError ''operands could not be broadcast together'')
      | Some v \<Rightarrow>
          Inr \<lparr>q_value = v,
               q_unit = \<lparr>dims = dims_add (dims (q_unit a)) (dims (q_unit b)),
                         scale = scale (q_unit a) * scale (q_unit b)\<rparr>\<rparr>)"

definition q_sqrt :: "real list quantity \<Rightarrow> fl list quantity" where
  "q_sqrt a =
     \<lparr>q_value = map np_sqrt (q_value a),
      q_unit = \<lparr>dims = dims_half (dims (q_unit a)), scale = sqrt (scale (q_unit a))\<rparr>\<rparr>"

definition q_div :: "real list quantity \<Rightarrow> real \<Rightarrow> real list quantity" where
  "q_div a k = \<lparr>q_value = map (\<lambda>v. v / k) (q_value a), q_unit = q_unit a\<rparr>"

subsection \<open>OffsetDependentTableEffectiveArea\<close>

text \<open>
  The two interpolators come from scipy. An interpolator object is kept as the data it
  was built from; the number it returns at a point is a parameter of \<open>evaluate\<close>
  (\<open>lin\<close> and \<open>spl\<close> below). Building one raises when the library refuses the
  data: the error \<open>InterpolatorError\<close> stands for the exception of the library, whatever
  its class and message.
\<close>

record LinearNDInterpolator =
  lin_points :: "(real \<times> fl) list"
  lin_values :: "real list"

record RectBivariateSpline =
  spl_x :: "real list"
  spl_y :: "fl list"
  spl_z :: "real list list"

text \<open>
  \<^verbatim>\<open>LinearNDInterpolator(points, values)\<close> wants one value for each point. The
  triangulation behind it also fails on points that all lie on one line; a grid of such
  points has an axis with fewer than two different values, which the checks of the
  spline below refuse as well, so the constructor of the table raises either way.
\<close>

definition LinearNDInterpolator_init ::
  "(real \<times> fl) list \<Rightarrow> real list \<Rightarrow> error + LinearNDInterpolator" where
  "LinearNDInterpolator_init pts vals =
     (if length vals = length pts then Inr \<lparr>lin_points = pts, lin_values = vals\<rparr>
      else Inl InterpolatorError)"

text \<open>
  \<^verbatim>\<open>RectBivariateSpline(x, y, z)\<close>, a spline of degree three in each direction: both
  axes must increase strictly, \<open>z\<close> must have a row for each \<open>x\<close> and a column for each
  \<open>y\<close>, and each axis needs at least four samples, one more than the degree.
\<close>

definition RectBivariateSpline_init ::
  "real list \<Rightarrow> fl list \<Rightarrow> real list list \<Rightarrow> error + RectBivariateSpline" where
  "RectBivariateSpline_init x y z =
     (if successively (<) x \<and> successively fl_less y
      then
        if length z = length x \<and> list_all (\<lambda>row. length row = length y) z
        then
          if 4 \<le> length x \<and> 4 \<le> length y
          then Inr \<lparr>spl_x = x, spl_y = y, spl_z = z\<rparr>
          else Inl InterpolatorError
        else Inl InterpolatorError
      else Inl InterpolatorError)"

text \<open>The attributes set before the interpolators are built.\<close>

record aeff_data =
  energ_lo :: "real list quantity"
  energ_hi :: "real list quantity"
  offset_lo :: "real list quantity"
  offset_hi :: "real list quantity"
  eff_area :: "real list list quantity"
  eff_area_reco :: "real list list quantity"
  offset :: "real list quantity"
  energy :: "fl list quantity"

text \<open>
  The whole object. The source's names \<^verbatim>\<open>_linear\<close>, \<^verbatim>\<open>_spline\<close> and
  \<^verbatim>\<open>_interpolation_method\<close> carry \<open>priv\<close> for their leading underscore here.
\<close>

record OffsetDependentTableEffectiveArea = aeff_data +
  priv_linear :: LinearNDInterpolator
  priv_spline :: RectBivariateSpline
  priv_interpolation_method :: string

text \<open>\<^verbatim>\<open>ndarray.flatten()\<close> of a two-dimensional array: the rows one after another.\<close>

definition flatten :: "'a list list \<Rightarrow> 'a list" where
  "flatten rows = concat rows"

definition prepare_linear_interpolator ::
  "'a aeff_data_scheme \<Rightarrow> error + LinearNDInterpolator" where
  "prepare_linear_interpolator self =
     (let x = q_value (offset self);
          y = map np_log10_fl (q_value (energy self));
          coord = [(xx, yy). xx \<leftarrow> x, yy \<leftarrow> y]
      in LinearNDInterpolator_init coord (flatten (q_value (eff_area self))))"

definition prepare_spline_interpolator ::
  "'a aeff_data_scheme \<Rightarrow> error + RectBivariateSpline" where
  "prepare_spline_interpolator self =
     (let x = q_value (offset self);
          y = map np_log10_fl (q_value (energy self))
      in RectBivariateSpline_init x y (q_value (eff_area self)))"

definition OffsetDependentTableEffectiveArea_init ::
  "real list pyobj \<Rightarrow> real list pyobj \<Rightarrow> real list pyobj \<Rightarrow> real list pyobj \<Rightarrow>
   real list list pyobj \<Rightarrow> real list list pyobj \<Rightarrow> error + OffsetDependentTableEffectiveArea" where
  "OffsetDependentTableEffectiveArea_init a_energ_lo a_energ_hi a_offset_lo a_offset_hi
       a_eff_area a_eff_area_reco =
     (case (as_Quantity a_energ_lo, as_Quantity a_energ_hi) of
        (Some e_lo, Some e_hi) \<Rightarrow>
          (case (as_Angle a_offset_lo, as_Angle a_offset_hi) of
             (Some o_lo, Some o_hi) \<Rightarrow>
               (case (as_Quantity a_eff_area, as_Quantity a_eff_area_reco) of
                  (Some ea, Some ear) \<Rightarrow>
                    bind (q_to map TeV e_lo) (\<lambda>self_energ_lo.
                    bind (q_to map TeV e_hi) (\<lambda>self_energ_hi.
                    bind (q_to map degree o_lo) (\<lambda>self_offset_lo.
                    bind (q_to map degree o_hi) (\<lambda>self_offset_hi.
                    bind (q_to (\<lambda>f. map (map f)) m2 ea) (\<lambda>self_eff_area.
                    bind (q_to (\<lambda>f. map (map f)) m2 ear) (\<lambda>self_eff_area_reco.
                    bind (q_add o_hi o_lo) (\<lambda>offset_sum.
                    bind (q_mul e_lo e_hi) (\<lambda>energy_prod.
                      let d = \<lparr>energ_lo = self_energ_lo, energ_hi = self_energ_hi,
                               offset_lo = self_offset_lo, offset_hi = self_offset_hi,
                               eff_area = self_eff_area, eff_area_reco = self_eff_area_reco,
                               offset = q_div offset_sum 2, energy = q_sqrt energy_prod\<rparr>
                      in
                      bind (prepare_linear_interpolator d) (\<lambda>self_linear.
                      bind (prepare_spline_interpolator d) (\<lambda>self_spline.
                        Inr (aeff_data.extend d
                          \<lparr>priv_linear = self_linear, priv_spline = self_spline,
                           priv_interpolation_method = ''linear''\<rparr>)))))))))))
                | _ \<Rightarrow> Inl (ValueError ''Effective areas must be Quantity objects.''))
           | _ \<Rightarrow> Inl (ValueError ''Offsets must be Angle objects.''))
      | _ \<Rightarrow> Inl (ValueError ''Energies must be Quantity objects.''))"

text \<open>A query argument: a scalar or a one-dimensional array.\<close>

datatype 'a arr = Scalar 'a | Vec "'a list"

text \<open>
  A result array: of no, one or two dimensions. \<open>Arr2 m rows\<close> has shape
  \<open>(length rows, m)\<close>.
\<close>

datatype 'a nd = Arr0 'a | Arr1 "'a list" | Arr2 nat "'a list list"

text \<open>
  Calling a \<^verbatim>\<open>LinearNDInterpolator\<close> with two arguments: they are broadcast against
  each other and the interpolant is taken at every pair.
\<close>

fun LinearNDInterpolator_call ::
  "(LinearNDInterpolator \<Rightarrow> real \<times> fl \<Rightarrow> fl) \<Rightarrow> LinearNDInterpolator \<Rightarrow>
   real arr \<Rightarrow> fl arr \<Rightarrow> error + fl nd" where
  "LinearNDInterpolator_call lin L (Scalar x) (Scalar y) = Inr (Arr0 (lin L (x, y)))"
| "LinearNDInterpolator_call lin L (Scalar x) (Vec ys) = Inr (Arr1 (map (\<lambda>y. lin L (x, y)) ys))"
| "LinearNDInterpolator_call lin L (Vec xs) (Scalar y) = Inr (Arr1 (map (\<lambda>x. lin L (x, y)) xs))"
| "LinearNDInterpolator_call lin L (Vec xs) (Vec ys) =
     (case broadcast2 (\<lambda>x y. lin L (x, y)) xs ys of
        None \<Rightarrow> Inl (ValueError ''shape mismatch: objects cannot be broadcast to a single shape'')
      | Some v \<Rightarrow> Inr (Arr1 v))"

fun ravel :: "'a arr \<Rightarrow> 'a list" where
  "ravel (Scalar x) = [x]"
| "ravel (Vec xs) = xs"

fun non_decreasing :: "fl list \<Rightarrow> bool" where
  "non_decreasing (a # b # rest) = (\<not> fl_less b a \<and> non_decreasing (b # rest))"
| "non_decreasing _ = True"

text \<open>
  Calling a \<^verbatim>\<open>RectBivariateSpline\<close> with two arguments: the spline is taken on the
  grid that the two arguments span, one row for each \<open>x\<close>. Neither argument may
  decrease.
\<close>

definition RectBivariateSpline_call ::
  "(RectBivariateSpline \<Rightarrow> real \<Rightarrow> fl \<Rightarrow> fl) \<Rightarrow> RectBivariateSpline \<Rightarrow>
   real arr \<Rightarrow> fl arr \<Rightarrow> error + fl nd" where
  "RectBivariateSpline_call spl S x y =
     (let xs = ravel x; ys = ravel y
      in if xs = [] \<or> ys = []
         then Inr (Arr2 (length ys) (replicate (length xs) (replicate (length ys) (Fin 0))))
         else if \<not> sorted xs \<or> \<not> non_decreasing ys
         then Inl (ValueError ''Error code returned by bispev: 10'')
         else Inr (Arr2 (length ys) (map (\<lambda>xv. map (\<lambda>yv. spl S xv yv) ys) xs)))"

text \<open>\<^verbatim>\<open>ndarray.squeeze()\<close>: every axis of length one is dropped.\<close>

fun squeeze :: "'a nd \<Rightarrow> 'a nd" where
  "squeeze (Arr0 v) = Arr0 v"
| "squeeze (Arr1 xs) = (if length xs = 1 then Arr0 (hd xs) else Arr1 xs)"
| "squeeze (Arr2 m rows) =
     (if length rows = 1 \<and> m = 1 then Arr0 (hd (hd rows))
      else if length rows = 1 then Arr1 (hd rows)
      else if m = 1 then Arr1 (map hd rows)
      else Arr2 m rows)"

definition evaluate ::
  "(LinearNDInterpolator \<Rightarrow> real \<times> fl \<Rightarrow> fl) \<Rightarrow> (RectBivariateSpline \<Rightarrow> real \<Rightarrow> fl \<Rightarrow> fl) \<Rightarrow>
   OffsetDependentTableEffectiveArea \<Rightarrow> real arr pyobj \<Rightarrow> real arr pyobj \<Rightarrow>
   error + fl nd quantity" where
  "evaluate lin spl self a_offset a_energy =
     (case (as_Quantity a_energy, as_Angle a_offset) of
        (Some en, Some off) \<Rightarrow>
          bind (q_to map_arr degree off) (\<lambda>off'.
          bind (q_to map_arr TeV en) (\<lambda>en'.
          bind (if priv_interpolation_method self = ''linear''
                then LinearNDInterpolator_call lin (priv_linear self)
                       (q_value off') (map_arr np_log10 (q_value en'))
                else if priv_interpolation_method self = ''spline''
                then bind (RectBivariateSpline_call spl (priv_spline self)
                             (q_value off') (map_arr np_log10 (q_value en')))
                       (\<lambda>z. Inr (squeeze z))
                else Inl (NotImplementedError
                            ''An unavailable interpolation method was set by hand.''))
            (\<lambda>val. Inr \<lparr>q_value = val, q_unit = q_unit (eff_area self)\<rparr>)))
      | _ \<Rightarrow> Inl (ValueError ''Energies (Offset) must be a Quantity (Angle) object.''))"

text \<open>
  \<^verbatim>\<open>set_interpolation_method\<close> either raises or updates the object; the result is
  the error, if any, with the object as the call leaves it.
\<close>

definition set_interpolation_method ::
  "OffsetDependentTableEffectiveArea \<Rightarrow> string \<Rightarrow>
   error option \<times> OffsetDependentTableEffectiveArea" where
  "set_interpolation_method self method =
     (if method \<notin> set [''linear'', ''spline'']
      then (Some (NotImplementedError ''The method you require is not implemented.''), self)
      else (None, self\<lparr>priv_interpolation_method := method\<rparr>))"

subsection \<open>The interpolants outside the sampled region\<close>

text \<open>
  The convex hull of a list of points of the plane: the points that are a weighted mean
  of them, with weights that are not negative and add up to one.
\<close>

definition in_hull :: "(real \<times> real) list \<Rightarrow> real \<times> real \<Rightarrow> bool" where
  "in_hull ps q \<longleftrightarrow>
     (\<exists>w. length w = length ps \<and> (\<forall>c \<in> set w. 0 \<le> c) \<and> sum_list w = 1
        \<and> sum_list (map2 (\<lambda>c p. c * fst p) w ps) = fst q
        \<and> sum_list (map2 (\<lambda>c p. c * snd p) w ps) = snd q)"

text \<open>The sample points whose second coordinate is a number.\<close>

fun finite_points :: "(real \<times> fl) list \<Rightarrow> (real \<times> real) list" where
  "finite_points [] = []"
| "finite_points ((x, Fin y) # ps) = (x, y) # finite_points ps"
| "finite_points (_ # ps) = finite_points ps"

text \<open>
  Modelled from the spec: the number a linear interpolator (scipy's
  \<^verbatim>\<open>LinearNDInterpolator\<close>, not part of the sources) gives at a point. Inside the
  convex hull of its sample points it is the barycentric interpolant over the
  triangulation, the parameter \<open>bary\<close>; at a point outside the hull the result is the
  explicit undefined value, NaN.
\<close>

definition LinearNDInterpolator_value ::
  "(LinearNDInterpolator \<Rightarrow> real \<times> real \<Rightarrow> real) \<Rightarrow> LinearNDInterpolator \<Rightarrow> real \<times> fl \<Rightarrow> fl" where
  "LinearNDInterpolator_value bary L q =
     (case snd q of
        Fin y \<Rightarrow>
          if in_hull (finite_points (lin_points L)) (fst q, y) then Fin (bary L (fst q, y))
          else NaN
      | _ \<Rightarrow> NaN)"

text \<open>
  Modelled from the spec: the number a bivariate spline (scipy's
  \<^verbatim>\<open>RectBivariateSpline\<close>, not part of the sources) gives at a point. It is the
  spline surface, the parameter \<open>surf\<close>, inside the mesh and outside it alike: outside
  the mesh the spline extrapolates and does not return the undefined value. A coordinate
  that is no number gives no number.
\<close>

definition RectBivariateSpline_value ::
  "(RectBivariateSpline \<Rightarrow> real \<Rightarrow> real \<Rightarrow> real) \<Rightarrow> RectBivariateSpline \<Rightarrow> real \<Rightarrow> fl \<Rightarrow> fl" where
  "RectBivariateSpline_value surf S x y =
     (case y of Fin yr \<Rightarrow> Fin (surf S x yr) | _ \<Rightarrow> NaN)"

section \<open>Example inputs\<close>

text \<open>
  A grid in canonical units: four energy bins with edges 1, 2, 4, 8, 16 TeV, four
  offset bins with edges 0, 1, 2, 3, 4 degree, and the area \<open>100 (i + 1) (j + 1)\<close> square
  metres in offset bin \<open>i\<close> and energy bin \<open>j\<close>.
\<close>

definition grid_energ_lo :: "real list pyobj" where
  "grid_energ_lo = Quantity \<lparr>q_value = [1, 2, 4, 8], q_unit = TeV\<rparr>"

definition grid_energ_hi :: "real list pyobj" where
  "grid_energ_hi = Quantity \<lparr>q_value = [2, 4, 8, 16], q_unit = TeV\<rparr>"

definition grid_offset_lo :: "real list pyobj" where
  "grid_offset_lo = Angle \<lparr>q_value = [0, 1, 2, 3], q_unit = degree\<rparr>"

definition grid_offset_hi :: "real list pyobj" where
  "grid_offset_hi = Angle \<lparr>q_value = [1, 2, 3, 4], q_unit = degree\<rparr>"

definition grid_eff_area :: "real list list pyobj" where
  "grid_eff_area =
     Quantity \<lparr>q_value = [[100, 200, 300, 400], [200, 400, 600, 800],
                          [300, 600, 900, 1200], [400, 800, 1200, 1600]],
               q_unit = m2\<rparr>"

text \<open>
  A grid in other units: four offsets, 0, 60, 120 and 180 arcmin (bins of no width), and
  four energy bins with edges 100, 10000, 1000000, 100000000 and 10000000000 GeV. The
  area in offset bin \<open>i\<close> and energy bin \<open>j\<close> is \<open>10 (4 i + j + 1)\<close> square metres.
\<close>

definition gev_energ_lo :: "real list pyobj" where
  "gev_energ_lo = Quantity \<lparr>q_value = [100, 10000, 1000000, 100000000], q_unit = GeV\<rparr>"

definition gev_energ_hi :: "real list pyobj" where
  "gev_energ_hi =
     Quantity \<lparr>q_value = [10000, 1000000, 100000000, 10000000000], q_unit = GeV\<rparr>"

definition arcmin_offset :: "real list pyobj" where
  "arcmin_offset = Angle \<lparr>q_value = [0, 60, 120, 180], q_unit = arcmin\<rparr>"

definition gev_eff_area :: "real list list pyobj" where
  "gev_eff_area =
     Quantity \<lparr>q_value = [[10, 20, 30, 40], [50, 60, 70, 80],
                          [90, 100, 110, 120], [130, 140, 150, 160]],
               q_unit = m2\<rparr>"

text \<open>The table with bins (1, 2) and (2, 4) TeV and areas 10 and 20 square metres.\<close>

definition simple_table :: TableEffectiveArea where
  "simple_table =
     \<lparr>energy_hi = \<lparr>q_value = [2, 4], q_unit = TeV\<rparr>,
      energy_lo = \<lparr>q_value = [1, 2], q_unit = TeV\<rparr>,
      effective_area = \<lparr>q_value = [10, 20], q_unit = m2\<rparr>,
      energy_thresh_lo = \<lparr>q_value = 1 / 10, q_unit = TeV\<rparr>,
      energy_thresh_hi = \<lparr>q_value = 100, q_unit = TeV\<rparr>\<rparr>"

text \<open>Two spectra on three edges each; the second has another middle edge.\<close>

definition bins_124 :: EnergyBounds where
  "bins_124 = \<lparr>q_value = [1, 2, 4], q_unit = TeV\<rparr>"

definition bins_134 :: EnergyBounds where
  "bins_134 = \<lparr>q_value = [1, 3, 4], q_unit = TeV\<rparr>"

definition spec_a :: CountsSpectrum where
  "spec_a =
     \<lparr>counts = [6, 3], energy_bounds = bins_124,
      meta = [''livetime'' \<mapsto> MQuantity 10 second, ''backscal'' \<mapsto> MNumber 5,
              ''obs_id'' \<mapsto> MNumber 23523],
      channels = [1, 2]\<rparr>"

definition spec_b :: CountsSpectrum where
  "spec_b =
     \<lparr>counts = [1, 1], energy_bounds = bins_134,
      meta = [''livetime'' \<mapsto> MQuantity 5 second, ''backscal'' \<mapsto> MNumber 1],
      channels = [1, 2]\<rparr>"

definition some_events :: EventList where
  "some_events =
     \<lparr>ev_energy = \<lparr>q_value = [3 / 2, 3], q_unit = TeV\<rparr>,
      observation_live_time_duration = MQuantity 1800 second\<rparr>"

text \<open>
  Ten bins with logarithmic spacing from 1 to 10 TeV, and two spectra on them.
\<close>

definition log_bins :: EnergyBounds where
  "log_bins = \<lparr>q_value = map (\<lambda>k. 10 powr (real k / 10)) [0 ..< 11], q_unit = TeV\<rparr>"

definition scenario_a :: CountsSpectrum where
  "scenario_a =
     \<lparr>counts = [6, 3, 8, 4, 9, 5, 9, 5, 5, 1], energy_bounds = log_bins,
      meta = [''livetime'' \<mapsto> MQuantity 10 second, ''backscal'' \<mapsto> MNumber 1],
      channels = [1 ..< 11]\<rparr>"

definition scenario_b :: CountsSpectrum where
  "scenario_b =
     \<lparr>counts = [1, 1, 1, 1, 1, 1, 1, 1, 1, 1], energy_bounds = log_bins,
      meta = [''livetime'' \<mapsto> MQuantity 5 second, ''backscal'' \<mapsto> MNumber 1],
      channels = [1 ..< 11]\<rparr>"

section \<open>Properties of the counts spectrum\<close>

lemma CountsSpectrum_init_meta:
  assumes "CountsSpectrum_init cnts e (Some [''livetime'' \<mapsto> l]) = Inr r"
  shows "meta r = [''livetime'' \<mapsto> l, ''backscal'' \<mapsto> MNumber 1]"
    and "counts r = cnts" and "energy_bounds r = e"
  using assms
  by (auto simp: CountsSpectrum_init_def setdefault_def Let_def split: if_splits)

lemma CountsSpectrum_init_no_meta:
  assumes "CountsSpectrum_init cnts e None = Inr r"
  shows "meta r = [''livetime'' \<mapsto> MQuantity 0 second, ''backscal'' \<mapsto> MNumber 1]"
  using assms
  by (auto simp: CountsSpectrum_init_def setdefault_def Let_def split: if_splits)

lemma length_np_histogram:
  "bins \<noteq> [] \<Longrightarrow> np_histogram a bins = Inr val \<Longrightarrow>
   int (length val) = int (length bins) - 1"
  by (cases bins) (auto simp: np_histogram_def split: if_splits)


text \<open>
  C9. \<^verbatim>\<open>from_eventlist\<close> builds the spectrum without the metadata it has just put
  together: whatever the event list's live time is, the returned spectrum holds only the
  defaults, live time 0 s and \<open>backscal\<close> 1. The call returns a spectrum whenever the
  event energies can be brought to the unit of the bins and the bin edges do not decrease.
\<close>

theorem from_eventlist_livetime_default:
  "(\<forall>s. from_eventlist rd ev bins = Inr s \<longrightarrow>
        meta s = [''livetime'' \<mapsto> MQuantity 0 second, ''backscal'' \<mapsto> MNumber 1])
   \<and> (dims (q_unit (ev_energy (event_list_of rd ev))) = dims (q_unit bins)
        \<and> q_value bins \<noteq> [] \<and> sorted (q_value bins)
      \<longrightarrow> (\<exists>s. from_eventlist rd ev bins = Inr s))"
proof (intro conjI allI impI)
  fix s assume "from_eventlist rd ev bins = Inr s"
  then obtain val where "CountsSpectrum_init val bins None = Inr s"
    by (auto simp: from_eventlist_def Let_def split: sum.splits)
  then show "meta s = [''livetime'' \<mapsto> MQuantity 0 second, ''backscal'' \<mapsto> MNumber 1]"
    by (rule CountsSpectrum_init_no_meta)
next
  assume a: "dims (q_unit (ev_energy (event_list_of rd ev))) = dims (q_unit bins)
        \<and> q_value bins \<noteq> [] \<and> sorted (q_value bins)"
  let ?e = "event_list_of rd ev"
  obtain en where en: "q_to map (q_unit bins) (ev_energy ?e) = Inr en"
    using a by (simp add: q_to_def)
  obtain val where val: "np_histogram (q_value en) (q_value bins) = Inr val"
    using a by (simp add: np_histogram_def)
  have "int (length val) = nbins bins"
    using a length_np_histogram [OF _ val] by (simp add: nbins_def)
  then obtain s where "CountsSpectrum_init val bins None = Inr s"
    by (simp add: CountsSpectrum_init_def Let_def)
  then show "\<exists>s. from_eventlist rd ev bins = Inr s"
    using en val by (simp add: from_eventlist_def Let_def)
qed

theorem from_eventlist_livetime_default_witness:
  "observation_live_time_duration some_events = MQuantity 1800 second
   \<and> (\<exists>s. from_eventlist (\<lambda>u::unit. some_events) (Events some_events) bins_124 = Inr s
          \<and> counts s = [1, 1]
          \<and> meta s ''livetime'' = Some (MQuantity 0 second))"
proof -
  let ?r = "from_eventlist (\<lambda>u::unit. some_events) (Events some_events) bins_124"
  have run: "?r =
      Inr \<lparr>counts = [1, 1], energy_bounds = bins_124,
           meta = [''livetime'' \<mapsto> MQuantity 0 second, ''backscal'' \<mapsto> MNumber 1],
           channels = [1, 2]\<rparr>"
    by (simp add: from_eventlist_def event_list_of_def some_events_def bins_124_def q_to_def
        TeV_def np_histogram_def in_bin_def CountsSpectrum_init_def nbins_def setdefault_def
        Let_def upt_rec)
  have pre: "dims (q_unit (ev_energy (event_list_of (\<lambda>u::unit. some_events) (Events some_events))))
               = dims (q_unit bins_124)
             \<and> q_value bins_124 \<noteq> [] \<and> sorted (q_value bins_124)"
    by (simp add: event_list_of_def some_events_def bins_124_def)
  from from_eventlist_livetime_default [of "\<lambda>u::unit. some_events" "Events some_events" bins_124]
    pre obtain s where s: "?r = Inr s"
      "meta s = [''livetime'' \<mapsto> MQuantity 0 second, ''backscal'' \<mapsto> MNumber 1]"
    by blast
  from s(1) run have "counts s = [1, 1]" by auto
  with s show ?thesis by (auto simp: some_events_def)
qed

text \<open>
  C10. Addition and scalar multiplication hand the constructor a fresh dictionary that
  holds the live time alone. The new spectrum's metadata is therefore that live time
  (the sum of the operands' live times for addition, the operand's own for
  multiplication) and \<open>backscal\<close> 1; no other key of the operands is carried over.
\<close>

theorem add_mul_metadata_reset:
  "(\<forall>r. add self other = Inr r \<longrightarrow>
     (\<exists>l1 l2 l. meta self ''livetime'' = Some l1 \<and> meta other ''livetime'' = Some l2 \<and>
        meta_add l1 l2 = Inr l \<and>
        meta r = [''livetime'' \<mapsto> l, ''backscal'' \<mapsto> MNumber 1]))
  \<and> (\<forall>r. mul self k = Inr r \<longrightarrow>
     (\<exists>l. meta self ''livetime'' = Some l \<and>
        meta r = [''livetime'' \<mapsto> l, ''backscal'' \<mapsto> MNumber 1]))"
proof (intro conjI allI impI)
  fix r assume "add self other = Inr r"
  then obtain cnts l1 l2 l where
    "getattr (meta self) ''livetime'' = Inr l1" "getattr (meta other) ''livetime'' = Inr l2"
    "meta_add l1 l2 = Inr l"
    "CountsSpectrum_init cnts (energy_bounds self) (Some [''livetime'' \<mapsto> l]) = Inr r"
    by (auto simp: add_def split: sum.splits if_splits option.splits)
  then show "\<exists>l1 l2 l. meta self ''livetime'' = Some l1 \<and> meta other ''livetime'' = Some l2 \<and>
        meta_add l1 l2 = Inr l \<and>
        meta r = [''livetime'' \<mapsto> l, ''backscal'' \<mapsto> MNumber 1]"
    using CountsSpectrum_init_meta(1)
    by (auto simp: getattr_def split: option.splits)
next
  fix r assume "mul self k = Inr r"
  then obtain l where
    "getattr (meta self) ''livetime'' = Inr l"
    "CountsSpectrum_init (map (\<lambda>c. c * k) (counts self)) (energy_bounds self)
       (Some [''livetime'' \<mapsto> l]) = Inr r"
    by (auto simp: mul_def Let_def split: sum.splits)
  then show "\<exists>l. meta self ''livetime'' = Some l \<and>
        meta r = [''livetime'' \<mapsto> l, ''backscal'' \<mapsto> MNumber 1]"
    using CountsSpectrum_init_meta(1)
    by (auto simp: getattr_def split: option.splits)
qed

theorem add_mul_metadata_reset_witness:
  "meta spec_a ''backscal'' = Some (MNumber 5) \<and> meta spec_a ''obs_id'' = Some (MNumber 23523)
   \<and> (\<exists>r. add spec_a spec_a = Inr r \<and> meta r ''livetime'' = Some (MQuantity 20 second)
          \<and> meta r ''backscal'' = Some (MNumber 1) \<and> meta r ''obs_id'' = None)
   \<and> (\<exists>r. mul spec_a 2 = Inr r \<and> meta r ''livetime'' = Some (MQuantity 10 second)
          \<and> meta r ''backscal'' = Some (MNumber 1) \<and> meta r ''obs_id'' = None)"
proof -
  have a: "\<exists>r. add spec_a spec_a = Inr r"
    by (simp add: add_def spec_a_def bins_124_def bounds_ne_def q_to_def broadcast2_def
        getattr_def CountsSpectrum_init_def nbins_def TeV_def second_def)
  have m: "\<exists>r. mul spec_a 2 = Inr r"
    by (simp add: mul_def spec_a_def bins_124_def getattr_def CountsSpectrum_init_def nbins_def)
  have l: "meta spec_a ''livetime'' = Some (MQuantity 10 second)"
    by (simp add: spec_a_def)
  from a obtain r where r: "add spec_a spec_a = Inr r" ..
  from m obtain r' where r': "mul spec_a 2 = Inr r'" ..
  from add_mul_metadata_reset [of spec_a spec_a 2] r l
  have "meta r = [''livetime'' \<mapsto> MQuantity 20 second, ''backscal'' \<mapsto> MNumber 1]"
    by (auto simp: second_def)
  moreover from add_mul_metadata_reset [of spec_a spec_a 2] r' l
  have "meta r' = [''livetime'' \<mapsto> MQuantity 10 second, ''backscal'' \<mapsto> MNumber 1]"
    by auto
  ultimately show ?thesis using r r' by (auto simp: spec_a_def)
qed

text \<open>
  C3. The binning test of \<^verbatim>\<open>__add__\<close> raises only when every edge of the one spectrum
  differs from the edge of the other at the same place. Two spectra whose edges are
  1, 2, 4 TeV and 1, 3, 4 TeV share their outer edges, so the sum is taken although the
  binning differs: the result carries the first spectrum's edges and the counts 7 and 4.
\<close>

theorem add_accepts_partly_different_binning:
  "energy_bounds spec_a \<noteq> energy_bounds spec_b
   \<and> add spec_a spec_b =
       Inr \<lparr>counts = [7, 4], energy_bounds = bins_124,
            meta = [''livetime'' \<mapsto> MQuantity 15 second, ''backscal'' \<mapsto> MNumber 1],
            channels = [1, 2]\<rparr>"
  by (simp add: add_def spec_a_def spec_b_def bins_124_def bins_134_def bounds_ne_def
      q_to_def broadcast2_def getattr_def CountsSpectrum_init_def nbins_def setdefault_def
      TeV_def second_def Let_def upt_rec)

lemma map2_same_ne: "map2 (\<lambda>x y. x \<noteq> y) xs xs = map (\<lambda>x. False) xs"
  by (induction xs) simp_all

lemma bounds_ne_same:
  assumes "scale (q_unit b) \<noteq> 0"
  shows "bounds_ne b b = Inr (map (\<lambda>x. False) (q_value b))"
proof -
  have "map (\<lambda>v. v * scale (q_unit b) / scale (q_unit b)) (q_value b) = q_value b"
    using assms by (simp add: map_idI)
  then show ?thesis
    by (simp add: bounds_ne_def q_to_def broadcast2_def map2_same_ne)
qed

text \<open>
  X1. Two spectra on the same edges, with as many counts as bins and live times of the
  same physical type, add to a spectrum on those edges whose counts are the sums bin by
  bin and whose live time is the sum of the two, in the unit of the first.
\<close>

theorem add_identical_binning:
  assumes "energy_bounds other = energy_bounds self"
    and "scale (q_unit (energy_bounds self)) \<noteq> 0"
    and "q_value (energy_bounds self) \<noteq> []"
    and "int (length (counts self)) = nbins (energy_bounds self)"
    and "length (counts other) = length (counts self)"
    and "meta self ''livetime'' = Some (MQuantity a u)"
    and "meta other ''livetime'' = Some (MQuantity b w)"
    and "dims u = dims w"
  shows "add self other =
           Inr \<lparr>counts = map2 (+) (counts self) (counts other),
                energy_bounds = energy_bounds self,
                meta = [''livetime'' \<mapsto> MQuantity (a + b * scale w / scale u) u,
                        ''backscal'' \<mapsto> MNumber 1],
                channels = [1 ..< nat (nbins (energy_bounds self) + 1)]\<rparr>"
proof -
  have ne: "bounds_ne (energy_bounds self) (energy_bounds other)
              = Inr (map (\<lambda>x. False) (q_value (energy_bounds self)))"
    using assms(1,2) by (simp add: bounds_ne_same)
  have not_all: "\<not> list_all (\<lambda>b. b) (map (\<lambda>x. False) (q_value (energy_bounds self)))"
    using assms(3) by (cases "q_value (energy_bounds self)") simp_all
  have bc: "broadcast2 (+) (counts self) (counts other)
              = Some (map2 (+) (counts self) (counts other))"
    using assms(5) by (simp add: broadcast2_def)
  have init: "CountsSpectrum_init (map2 (+) (counts self) (counts other)) (energy_bounds self)
                (Some [''livetime'' \<mapsto> MQuantity (a + b * scale w / scale u) u])
              = Inr \<lparr>counts = map2 (+) (counts self) (counts other),
                energy_bounds = energy_bounds self,
                meta = [''livetime'' \<mapsto> MQuantity (a + b * scale w / scale u) u,
                        ''backscal'' \<mapsto> MNumber 1],
                channels = [1 ..< nat (nbins (energy_bounds self) + 1)]\<rparr>"
    using assms(4,5) by (simp add: CountsSpectrum_init_def setdefault_def Let_def)
  show ?thesis
    using not_all assms(6,7,8)
    by (simp add: add_def ne bc getattr_def init)
qed

theorem add_identical_binning_witness:
  "\<exists>r. add scenario_a scenario_b = Inr r
       \<and> counts r = [7, 4, 9, 5, 10, 6, 10, 6, 6, 2]
       \<and> energy_bounds r = log_bins
       \<and> meta r ''livetime'' = Some (MQuantity 15 second)"
proof -
  have "add scenario_a scenario_b =
           Inr \<lparr>counts = map2 (+) (counts scenario_a) (counts scenario_b),
                energy_bounds = energy_bounds scenario_a,
                meta = [''livetime'' \<mapsto>
                          MQuantity (10 + 5 * scale second / scale second) second,
                        ''backscal'' \<mapsto> MNumber 1],
                channels = [1 ..< nat (nbins (energy_bounds scenario_a) + 1)]\<rparr>"
    by (rule add_identical_binning)
       (simp_all add: scenario_a_def scenario_b_def log_bins_def nbins_def TeV_def)
  then show ?thesis
    by (simp add: scenario_a_def scenario_b_def second_def)
qed

text \<open>
  X2. Multiplying a spectrum by a number multiplies every count by it and keeps the
  edges and the live time.
\<close>

theorem mul_scales_counts:
  assumes "int (length (counts self)) = nbins (energy_bounds self)"
    and "meta self ''livetime'' = Some l"
  shows "mul self k =
           Inr \<lparr>counts = map (\<lambda>c. c * k) (counts self),
                energy_bounds = energy_bounds self,
                meta = [''livetime'' \<mapsto> l, ''backscal'' \<mapsto> MNumber 1],
                channels = [1 ..< nat (nbins (energy_bounds self) + 1)]\<rparr>"
  using assms
  by (simp add: mul_def getattr_def CountsSpectrum_init_def setdefault_def Let_def)

theorem mul_scales_counts_witness:
  "\<exists>r. mul scenario_a 2 = Inr r
       \<and> counts r = [12, 6, 16, 8, 18, 10, 18, 10, 10, 2]
       \<and> meta r ''livetime'' = Some (MQuantity 10 second)"
proof -
  have "mul scenario_a 2 =
           Inr \<lparr>counts = map (\<lambda>c. c * 2) (counts scenario_a),
                energy_bounds = energy_bounds scenario_a,
                meta = [''livetime'' \<mapsto> MQuantity 10 second, ''backscal'' \<mapsto> MNumber 1],
                channels = [1 ..< nat (nbins (energy_bounds scenario_a) + 1)]\<rparr>"
    by (rule mul_scales_counts) (simp_all add: scenario_a_def log_bins_def nbins_def)
  then show ?thesis
    by (simp add: scenario_a_def)
qed

section \<open>Properties of the effective area tables\<close>

lemma concat_product_nth:
  "i < length xs \<Longrightarrow> j < length ys \<Longrightarrow>
   concat (map (\<lambda>x. map (f x) ys) xs) ! (i * length ys + j) = f (xs ! i) (ys ! j)"
proof (induction xs arbitrary: i)
  case Nil
  then show ?case by simp
next
  case (Cons x xs)
  show ?case
  proof (cases i)
    case 0
    with Cons.prems show ?thesis by (simp add: nth_append)
  next
    case (Suc k)
    with Cons.prems have "k < length xs" by simp
    from Cons.IH [OF this Cons.prems(2)] Suc show ?thesis
      by (simp add: nth_append add.assoc)
  qed
qed

lemma length_concat_product:
  "length (concat (map (\<lambda>x. map (f x) ys) xs)) = length xs * length ys"
  by (induction xs) simp_all

lemma concat_rows_nth:
  "\<forall>r \<in> set rows. length r = n \<Longrightarrow> i < length rows \<Longrightarrow> j < n \<Longrightarrow>
   concat rows ! (i * n + j) = rows ! i ! j"
proof (induction rows arbitrary: i)
  case Nil
  then show ?case by simp
next
  case (Cons r rows)
  show ?case
  proof (cases i)
    case 0
    with Cons.prems show ?thesis by (simp add: nth_append)
  next
    case (Suc k)
    with Cons.prems have "k < length rows" "\<forall>r \<in> set rows. length r = n" "length r = n"
      by simp_all
    with Cons.IH [of k] Cons.prems(3) Suc show ?thesis
      by (simp add: nth_append add.assoc)
  qed
qed

lemma length_concat_rows:
  "\<forall>r \<in> set rows. length r = n \<Longrightarrow> length (concat rows) = length rows * n"
  by (induction rows) simp_all

lemma bind_Inr: "bind r f = Inr y \<longleftrightarrow> (\<exists>v. r = Inr v \<and> f v = Inr y)"
  by (cases r) (simp_all add: bind_def)

lemma init_Inr:
  assumes "OffsetDependentTableEffectiveArea_init a1 a2 a3 a4 a5 a6 = Inr t"
  obtains e_lo e_hi o_lo o_hi ea ear lo' hi' olo' ohi' ea' ear' osum eprod where
    "as_Quantity a1 = Some e_lo" "as_Quantity a2 = Some e_hi"
    "as_Angle a3 = Some o_lo" "as_Angle a4 = Some o_hi"
    "as_Quantity a5 = Some ea" "as_Quantity a6 = Some ear"
    "q_to map TeV e_lo = Inr lo'" "q_to map TeV e_hi = Inr hi'"
    "q_to map degree o_lo = Inr olo'" "q_to map degree o_hi = Inr ohi'"
    "q_to (\<lambda>f. map (map f)) m2 ea = Inr ea'" "q_to (\<lambda>f. map (map f)) m2 ear = Inr ear'"
    "q_add o_hi o_lo = Inr osum" "q_mul e_lo e_hi = Inr eprod"
    "energ_lo t = lo'" "energ_hi t = hi'" "offset_lo t = olo'" "offset_hi t = ohi'"
    "eff_area t = ea'" "eff_area_reco t = ear'"
    "offset t = q_div osum 2" "energy t = q_sqrt eprod"
    "prepare_linear_interpolator t = Inr (priv_linear t)"
    "prepare_spline_interpolator t = Inr (priv_spline t)"
    "priv_interpolation_method t = ''linear''"
proof -
  from assms obtain e_lo e_hi where 1: "as_Quantity a1 = Some e_lo" "as_Quantity a2 = Some e_hi"
    by (auto simp: OffsetDependentTableEffectiveArea_init_def split: option.splits)
  from assms obtain o_lo o_hi where 2: "as_Angle a3 = Some o_lo" "as_Angle a4 = Some o_hi"
    by (auto simp: OffsetDependentTableEffectiveArea_init_def 1 split: option.splits)
  from assms obtain ea ear where 3: "as_Quantity a5 = Some ea" "as_Quantity a6 = Some ear"
    by (auto simp: OffsetDependentTableEffectiveArea_init_def 1 2 split: option.splits)
  from assms obtain lo' hi' olo' ohi' ea' ear' osum eprod L S where 4:
    "q_to map TeV e_lo = Inr lo'" "q_to map TeV e_hi = Inr hi'"
    "q_to map degree o_lo = Inr olo'" "q_to map degree o_hi = Inr ohi'"
    "q_to (\<lambda>f. map (map f)) m2 ea = Inr ea'" "q_to (\<lambda>f. map (map f)) m2 ear = Inr ear'"
    "q_add o_hi o_lo = Inr osum" "q_mul e_lo e_hi = Inr eprod"
    and pl: "prepare_linear_interpolator
              \<lparr>energ_lo = lo', energ_hi = hi', offset_lo = olo', offset_hi = ohi',
               eff_area = ea', eff_area_reco = ear',
               offset = q_div osum 2, energy = q_sqrt eprod\<rparr> = Inr L"
    and ps: "prepare_spline_interpolator
              \<lparr>energ_lo = lo', energ_hi = hi', offset_lo = olo', offset_hi = ohi',
               eff_area = ea', eff_area_reco = ear',
               offset = q_div osum 2, energy = q_sqrt eprod\<rparr> = Inr S"
    and t: "t = aeff_data.extend
              \<lparr>energ_lo = lo', energ_hi = hi', offset_lo = olo', offset_hi = ohi',
               eff_area = ea', eff_area_reco = ear',
               offset = q_div osum 2, energy = q_sqrt eprod\<rparr>
              \<lparr>priv_linear = L, priv_spline = S, priv_interpolation_method = ''linear''\<rparr>"
    unfolding OffsetDependentTableEffectiveArea_init_def 1 2 3
    by (simp add: bind_Inr Let_def) blast
  have pl': "prepare_linear_interpolator t = Inr (priv_linear t)"
    using pl by (simp add: t aeff_data.extend_def prepare_linear_interpolator_def)
  have ps': "prepare_spline_interpolator t = Inr (priv_spline t)"
    using ps by (simp add: t aeff_data.extend_def prepare_spline_interpolator_def)
  show ?thesis
    by (rule that [OF 1 2 3 4 _ _ _ _ _ _ _ _ pl' ps']) (simp_all add: t aeff_data.extend_def)
qed

lemma init_data:
  assumes "OffsetDependentTableEffectiveArea_init a1 a2 a3 a4 a5 a6 = Inr t"
  shows "lin_points (priv_linear t)
           = [(xx, yy). xx \<leftarrow> q_value (offset t), yy \<leftarrow> map np_log10_fl (q_value (energy t))]"
    and "lin_values (priv_linear t) = concat (q_value (eff_area t))"
    and "priv_interpolation_method t = ''linear''"
proof -
  from assms have pl: "prepare_linear_interpolator t = Inr (priv_linear t)"
    by (rule init_Inr)
  then have built: "priv_linear t =
      \<lparr>lin_points = [(xx, yy). xx \<leftarrow> q_value (offset t),
                                 yy \<leftarrow> map np_log10_fl (q_value (energy t))],
       lin_values = flatten (q_value (eff_area t))\<rparr>"
    by (auto simp: prepare_linear_interpolator_def LinearNDInterpolator_init_def Let_def
        split: if_splits)
  show "lin_points (priv_linear t)
           = [(xx, yy). xx \<leftarrow> q_value (offset t), yy \<leftarrow> map np_log10_fl (q_value (energy t))]"
    by (subst built) simp
  show "lin_values (priv_linear t) = concat (q_value (eff_area t))"
    by (subst built) (simp add: flatten_def)
  from assms show "priv_interpolation_method t = ''linear''"
    by (rule init_Inr)
qed

lemma init_spline:
  assumes "OffsetDependentTableEffectiveArea_init a1 a2 a3 a4 a5 a6 = Inr t"
  shows "priv_spline t =
           \<lparr>spl_x = q_value (offset t), spl_y = map np_log10_fl (q_value (energy t)),
            spl_z = q_value (eff_area t)\<rparr>"
    and "4 \<le> length (q_value (offset t))" and "4 \<le> length (q_value (energy t))"
proof -
  from assms have ps: "prepare_spline_interpolator t = Inr (priv_spline t)"
    by (rule init_Inr)
  then show "priv_spline t =
           \<lparr>spl_x = q_value (offset t), spl_y = map np_log10_fl (q_value (energy t)),
            spl_z = q_value (eff_area t)\<rparr>"
    by (auto simp: prepare_spline_interpolator_def RectBivariateSpline_init_def Let_def
        split: if_splits)
  from ps show "4 \<le> length (q_value (offset t))" and "4 \<le> length (q_value (energy t))"
    by (auto simp: prepare_spline_interpolator_def RectBivariateSpline_init_def Let_def
        split: if_splits)
qed

lemma q_to_unit: "q_to mapf target q = Inr q' \<Longrightarrow> q_unit q' = target"
  by (auto simp: q_to_def split: if_splits)

lemma q_add_unit: "q_add a b = Inr s \<Longrightarrow> q_unit s = q_unit a"
  by (auto simp: q_add_def bind_Inr split: option.splits)

lemma q_mul_unit:
  "q_mul a b = Inr p \<Longrightarrow>
   q_unit p = \<lparr>dims = dims_add (dims (q_unit a)) (dims (q_unit b)),
               scale = scale (q_unit a) * scale (q_unit b)\<rparr>"
  by (auto simp: q_mul_def split: option.splits)

lemma init_area_unit:
  assumes "OffsetDependentTableEffectiveArea_init a1 a2 a3 a4 a5 a6 = Inr t"
  shows "q_unit (eff_area t) = m2"
proof -
  from assms obtain ea ea' where "q_to (\<lambda>f. map (map f)) m2 ea = Inr ea'" "eff_area t = ea'"
    by (rule init_Inr)
  then show ?thesis by (simp add: q_to_unit)
qed

text \<open>
  C1. The linear interpolator is built from the points \<open>(offset, log10 energy)\<close>, listed
  offset by offset and, within one offset, energy by energy, and from the rows of the
  area matrix one after another. When the matrix has one row for each offset bin and one
  column for each energy bin, position \<open>i * n_energy + j\<close> of the points is
  \<open>(offset_center i, log10 (energy_center j))\<close> and the same position of the values is
  \<open>eff_area[i][j]\<close>.
\<close>

theorem linear_interpolator_ordering:
  assumes "OffsetDependentTableEffectiveArea_init a1 a2 a3 a4 a5 a6 = Inr t"
    and "length (q_value (eff_area t)) = length (q_value (offset t))"
    and "\<forall>row \<in> set (q_value (eff_area t)). length row = length (q_value (energy t))"
    and "i < length (q_value (offset t))" and "j < length (q_value (energy t))"
  shows "lin_points (priv_linear t) ! (i * length (q_value (energy t)) + j)
           = (q_value (offset t) ! i, np_log10_fl (q_value (energy t) ! j))
       \<and> lin_values (priv_linear t) ! (i * length (q_value (energy t)) + j)
           = q_value (eff_area t) ! i ! j
       \<and> length (lin_points (priv_linear t))
           = length (q_value (offset t)) * length (q_value (energy t))
       \<and> length (lin_values (priv_linear t))
           = length (q_value (offset t)) * length (q_value (energy t))"
proof -
  let ?x = "q_value (offset t)" and ?e = "q_value (energy t)"
  let ?y = "map np_log10_fl ?e"
  have pts: "lin_points (priv_linear t) = concat (map (\<lambda>xx. map (Pair xx) ?y) ?x)"
    using init_data(1) [OF assms(1)] by simp
  have vals: "lin_values (priv_linear t) = concat (q_value (eff_area t))"
    using assms(1) by (rule init_data)
  have j: "j < length ?y" using assms(5) by simp
  have "lin_points (priv_linear t) ! (i * length ?y + j) = (?x ! i, ?y ! j)"
    unfolding pts using assms(4) j by (rule concat_product_nth)
  then have 1: "lin_points (priv_linear t) ! (i * length ?e + j) = (?x ! i, np_log10_fl (?e ! j))"
    using assms(5) by simp
  have 2: "lin_values (priv_linear t) ! (i * length ?e + j) = q_value (eff_area t) ! i ! j"
    unfolding vals using assms(3) _ assms(5)
    by (rule concat_rows_nth) (simp add: assms(2) assms(4))
  have 3: "length (lin_points (priv_linear t)) = length ?x * length ?e"
    unfolding pts by (simp add: length_concat_product)
  have 4: "length (lin_values (priv_linear t)) = length ?x * length ?e"
    unfolding vals using length_concat_rows [OF assms(3)] by (simp add: assms(2))
  from 1 2 3 4 show ?thesis by simp
qed

lemma grid_init:
  "\<exists>t. OffsetDependentTableEffectiveArea_init grid_energ_lo grid_energ_hi grid_offset_lo
          grid_offset_hi grid_eff_area grid_eff_area = Inr t
       \<and> offset t = \<lparr>q_value = [1 / 2, 3 / 2, 5 / 2, 7 / 2], q_unit = degree\<rparr>
       \<and> q_value (energy t) = [np_sqrt 2, np_sqrt 8, np_sqrt 32, np_sqrt 128]
       \<and> q_unit (energy t) = TeV
       \<and> eff_area t =
           \<lparr>q_value = [[100, 200, 300, 400], [200, 400, 600, 800],
                        [300, 600, 900, 1200], [400, 800, 1200, 1600]],
            q_unit = m2\<rparr>"
  by (simp add: OffsetDependentTableEffectiveArea_init_def grid_energ_lo_def grid_energ_hi_def
      grid_offset_lo_def grid_offset_hi_def grid_eff_area_def bind_def q_to_def q_add_def
      q_mul_def q_sqrt_def q_div_def broadcast2_def TeV_def degree_def m2_def
      energy_dims_def angle_dims_def area_dims_def aeff_data.extend_def Let_def
      dims_add_def dims_half_def prepare_linear_interpolator_def
      prepare_spline_interpolator_def LinearNDInterpolator_init_def
      RectBivariateSpline_init_def flatten_def np_sqrt_def np_log10_def)

theorem linear_interpolator_ordering_witness:
  "\<exists>t. OffsetDependentTableEffectiveArea_init grid_energ_lo grid_energ_hi grid_offset_lo
          grid_offset_hi grid_eff_area grid_eff_area = Inr t
       \<and> lin_points (priv_linear t) ! 6 = (3 / 2, np_log10_fl (np_sqrt 32))
       \<and> lin_values (priv_linear t) ! 6 = 600
       \<and> length (lin_points (priv_linear t)) = 16 \<and> length (lin_values (priv_linear t)) = 16"
proof -
  from grid_init obtain t where
    t: "OffsetDependentTableEffectiveArea_init grid_energ_lo grid_energ_hi grid_offset_lo
          grid_offset_hi grid_eff_area grid_eff_area = Inr t"
    and x: "offset t = \<lparr>q_value = [1 / 2, 3 / 2, 5 / 2, 7 / 2], q_unit = degree\<rparr>"
    and e: "q_value (energy t) = [np_sqrt 2, np_sqrt 8, np_sqrt 32, np_sqrt 128]"
    and a: "eff_area t =
           \<lparr>q_value = [[100, 200, 300, 400], [200, 400, 600, 800],
                        [300, 600, 900, 1200], [400, 800, 1200, 1600]],
            q_unit = m2\<rparr>"
    by blast
  have "lin_points (priv_linear t) ! (1 * length (q_value (energy t)) + 2)
           = (q_value (offset t) ! 1, np_log10_fl (q_value (energy t) ! 2))
       \<and> lin_values (priv_linear t) ! (1 * length (q_value (energy t)) + 2)
           = q_value (eff_area t) ! 1 ! 2
       \<and> length (lin_points (priv_linear t))
           = length (q_value (offset t)) * length (q_value (energy t))
       \<and> length (lin_values (priv_linear t))
           = length (q_value (offset t)) * length (q_value (energy t))"
    by (rule linear_interpolator_ordering [OF t]) (simp_all add: x e a)
  then show ?thesis using t by (simp add: x e a eval_nat_numeral)
qed

lemma argmin_from_spec:
  assumes "best_i < i" and "i = length ys" and "ys ! best_i = best"
    and "\<forall>k<i. best \<le> ys ! k"
  shows "argmin_from xs i best best_i < i + length xs
       \<and> (\<forall>k < i + length xs.
            (ys @ xs) ! argmin_from xs i best best_i \<le> (ys @ xs) ! k)"
  using assms
proof (induction xs arbitrary: ys i best best_i)
  case Nil
  then show ?case by simp
next
  case (Cons x xs)
  show ?case
  proof (cases "x < best")
    case True
    have "argmin_from xs (Suc i) x i < Suc i + length xs
       \<and> (\<forall>k < Suc i + length xs.
            ((ys @ [x]) @ xs) ! argmin_from xs (Suc i) x i \<le> ((ys @ [x]) @ xs) ! k)"
    proof (rule Cons.IH)
      show "i < Suc i" by simp
      show "Suc i = length (ys @ [x])" using Cons.prems(2) by simp
      show "(ys @ [x]) ! i = x" using Cons.prems(2) by simp
      show "\<forall>k<Suc i. x \<le> (ys @ [x]) ! k"
      proof (intro allI impI)
        fix k assume "k < Suc i"
        then show "x \<le> (ys @ [x]) ! k"
          using Cons.prems(2,4) True by (cases "k = i") (auto simp: nth_append less_Suc_eq)
      qed
    qed
    with True show ?thesis by simp
  next
    case False
    have "argmin_from xs (Suc i) best best_i < Suc i + length xs
       \<and> (\<forall>k < Suc i + length xs.
            ((ys @ [x]) @ xs) ! argmin_from xs (Suc i) best best_i \<le> ((ys @ [x]) @ xs) ! k)"
    proof (rule Cons.IH)
      show "best_i < Suc i" using Cons.prems(1) by simp
      show "Suc i = length (ys @ [x])" using Cons.prems(2) by simp
      show "(ys @ [x]) ! best_i = best" using Cons.prems(1,2,3) by (simp add: nth_append)
      show "\<forall>k<Suc i. best \<le> (ys @ [x]) ! k"
      proof (intro allI impI)
        fix k assume "k < Suc i"
        then show "best \<le> (ys @ [x]) ! k"
          using Cons.prems(2,4) False by (cases "k = i") (auto simp: nth_append less_Suc_eq)
      qed
    qed
    with False show ?thesis by simp
  qed
qed

lemma np_argmin_spec:
  assumes "xs \<noteq> []"
  shows "\<exists>i. np_argmin xs = Inr i \<and> i < length xs \<and> (\<forall>k < length xs. xs ! i \<le> xs ! k)"
proof -
  from assms obtain x rest where xs: "xs = x # rest" by (cases xs) auto
  have "argmin_from rest 1 x 0 < 1 + length rest
       \<and> (\<forall>k < 1 + length rest. ([x] @ rest) ! argmin_from rest 1 x 0 \<le> ([x] @ rest) ! k)"
    by (rule argmin_from_spec) simp_all
  then show ?thesis by (simp add: xs np_argmin_def)
qed

lemma TableEffectiveArea_init_units:
  assumes "TableEffectiveArea_init e_lo e_hi eff_a t_lo t_hi = Inr self"
  shows "q_unit (energy_hi self) = TeV" and "q_unit (energy_lo self) = TeV"
    and "q_unit (effective_area self) = m2"
    and "q_unit (energy_thresh_lo self) = TeV" and "q_unit (energy_thresh_hi self) = TeV"
  using assms
  by (auto simp: TableEffectiveArea_init_def bind_def q_to_def Let_def
      split: sum.splits if_splits)

text \<open>
  C8. \<^verbatim>\<open>effective_area_at_energy\<close> of a table that has at least one bin and one area
  for each bin, asked at an energy in any energy unit: the answer is the area of a bin
  whose upper edge is at least as near to the energy as every other upper edge, in square
  metres. For the bins (1, 2) and (2, 4) TeV with areas 10 and 20, the answer at 1.9 TeV
  is 10.
\<close>

theorem effective_area_at_energy_nearest:
  assumes "TableEffectiveArea_init e_lo e_hi eff_a t_lo t_hi = Inr self"
    and "as_Quantity en = Some e" and "dims (q_unit e) = energy_dims"
    and "q_value (energy_hi self) \<noteq> []"
    and "length (q_value (effective_area self)) = length (q_value (energy_hi self))"
  shows "(\<exists>i < length (q_value (energy_hi self)).
            effective_area_at_energy self en
              = Inr \<lparr>q_value = q_value (effective_area self) ! i, q_unit = m2\<rparr>
          \<and> (\<forall>k < length (q_value (energy_hi self)).
                \<bar>q_value (energy_hi self) ! i - q_value e * scale (q_unit e)\<bar>
                \<le> \<bar>q_value (energy_hi self) ! k - q_value e * scale (q_unit e)\<bar>))
       \<and> effective_area_at_energy simple_table (Quantity \<lparr>q_value = 19 / 10, q_unit = TeV\<rparr>)
           = Inr \<lparr>q_value = 10, q_unit = m2\<rparr>"
proof
  let ?hi = "q_value (energy_hi self)"
  let ?q = "q_value e * scale (q_unit e)"
  let ?d = "map (\<lambda>h. \<bar>h - ?q\<bar>) ?hi"
  have u: "q_unit (energy_hi self) = TeV" "q_unit (effective_area self) = m2"
    using assms(1) by (rule TableEffectiveArea_init_units)+
  have conv: "q_to (\<lambda>f. f) TeV e = Inr \<lparr>q_value = ?q, q_unit = TeV\<rparr>"
    using assms(3) by (simp add: q_to_def TeV_def)
  have "?d \<noteq> []" using assms(4) by simp
  from np_argmin_spec [OF this] obtain i where
    i: "np_argmin ?d = Inr i" "i < length ?d" "\<forall>k < length ?d. ?d ! i \<le> ?d ! k"
    by blast
  have "effective_area_at_energy self en
          = Inr \<lparr>q_value = q_value (effective_area self) ! i, q_unit = m2\<rparr>"
    using i(1,2) assms(2,5) by (simp add: effective_area_at_energy_def conv bind_def u)
  moreover have "\<forall>k < length ?hi. \<bar>?hi ! i - ?q\<bar> \<le> \<bar>?hi ! k - ?q\<bar>"
    using i(2,3) by simp
  ultimately show "\<exists>i < length ?hi.
            effective_area_at_energy self en
              = Inr \<lparr>q_value = q_value (effective_area self) ! i, q_unit = m2\<rparr>
          \<and> (\<forall>k < length ?hi. \<bar>?hi ! i - ?q\<bar> \<le> \<bar>?hi ! k - ?q\<bar>)"
    using i(2) by auto
next
  show "effective_area_at_energy simple_table (Quantity \<lparr>q_value = 19 / 10, q_unit = TeV\<rparr>)
           = Inr \<lparr>q_value = 10, q_unit = m2\<rparr>"
    by (simp add: effective_area_at_energy_def simple_table_def q_to_def bind_def
        np_argmin_def TeV_def)
qed

theorem effective_area_at_energy_nearest_witness:
  "TableEffectiveArea_init (Quantity \<lparr>q_value = [1, 2], q_unit = TeV\<rparr>)
      (Quantity \<lparr>q_value = [2000, 4000], q_unit = GeV\<rparr>)
      (Quantity \<lparr>q_value = [100000, 200000], q_unit = cm2\<rparr>) None None = Inr simple_table
   \<and> effective_area_at_energy simple_table (Quantity \<lparr>q_value = 3100, q_unit = GeV\<rparr>)
       = Inr \<lparr>q_value = 20, q_unit = m2\<rparr>
   \<and> effective_area_at_energy simple_table (Quantity \<lparr>q_value = 19 / 10, q_unit = TeV\<rparr>)
       = Inr \<lparr>q_value = 10, q_unit = m2\<rparr>"
proof -
  have init: "TableEffectiveArea_init (Quantity \<lparr>q_value = [1, 2], q_unit = TeV\<rparr>)
      (Quantity \<lparr>q_value = [2000, 4000], q_unit = GeV\<rparr>)
      (Quantity \<lparr>q_value = [100000, 200000], q_unit = cm2\<rparr>) None None = Inr simple_table"
    by (simp add: TableEffectiveArea_init_def validate_physical_type_def bind_def q_to_def
        simple_table_def TeV_def GeV_def cm2_def m2_def energy_dims_def area_dims_def)
  have run: "effective_area_at_energy simple_table (Quantity \<lparr>q_value = 3100, q_unit = GeV\<rparr>)
       = Inr \<lparr>q_value = 20, q_unit = m2\<rparr>"
    by (simp add: effective_area_at_energy_def simple_table_def q_to_def bind_def
        np_argmin_def TeV_def GeV_def energy_dims_def)
  from effective_area_at_energy_nearest [OF init,
      of "Quantity \<lparr>q_value = 3100, q_unit = GeV\<rparr>" "\<lparr>q_value = 3100, q_unit = GeV\<rparr>"]
  have "effective_area_at_energy simple_table (Quantity \<lparr>q_value = 19 / 10, q_unit = TeV\<rparr>)
           = Inr \<lparr>q_value = 10, q_unit = m2\<rparr>"
    by (simp add: simple_table_def GeV_def energy_dims_def)
  with init run show ?thesis by simp
qed

text \<open>
  C7. \<^verbatim>\<open>set_interpolation_method\<close> with the name \<open>linear\<close> or \<open>spline\<close> returns
  the object with the selector set to that name and every other attribute, both
  interpolators among them, as it was. With any other name it raises and the object is
  as it was, selector included.
\<close>

theorem set_interpolation_method_frame:
  "(method = ''linear'' \<or> method = ''spline'' \<longrightarrow>
      set_interpolation_method self method
        = (None, self\<lparr>priv_interpolation_method := method\<rparr>)
      \<and> priv_interpolation_method (snd (set_interpolation_method self method)) = method
      \<and> priv_linear (snd (set_interpolation_method self method)) = priv_linear self
      \<and> priv_spline (snd (set_interpolation_method self method)) = priv_spline self
      \<and> energ_lo (snd (set_interpolation_method self method)) = energ_lo self
      \<and> energ_hi (snd (set_interpolation_method self method)) = energ_hi self
      \<and> offset_lo (snd (set_interpolation_method self method)) = offset_lo self
      \<and> offset_hi (snd (set_interpolation_method self method)) = offset_hi self
      \<and> eff_area (snd (set_interpolation_method self method)) = eff_area self
      \<and> eff_area_reco (snd (set_interpolation_method self method)) = eff_area_reco self
      \<and> offset (snd (set_interpolation_method self method)) = offset self
      \<and> energy (snd (set_interpolation_method self method)) = energy self)
   \<and> (method \<noteq> ''linear'' \<and> method \<noteq> ''spline'' \<longrightarrow>
      set_interpolation_method self method
        = (Some (NotImplementedError ''The method you require is not implemented.''), self))"
  by (simp add: set_interpolation_method_def)


theorem set_interpolation_method_frame_witness:
  "\<exists>t. OffsetDependentTableEffectiveArea_init grid_energ_lo grid_energ_hi grid_offset_lo
          grid_offset_hi grid_eff_area grid_eff_area = Inr t
       \<and> priv_interpolation_method t = ''linear''
       \<and> set_interpolation_method t ''spline''
           = (None, t\<lparr>priv_interpolation_method := ''spline''\<rparr>)
       \<and> priv_linear (snd (set_interpolation_method t ''spline'')) = priv_linear t
       \<and> priv_spline (snd (set_interpolation_method t ''spline'')) = priv_spline t
       \<and> set_interpolation_method t ''cubic''
           = (Some (NotImplementedError ''The method you require is not implemented.''), t)"
proof -
  from grid_init obtain t where
    t: "OffsetDependentTableEffectiveArea_init grid_energ_lo grid_energ_hi grid_offset_lo
          grid_offset_hi grid_eff_area grid_eff_area = Inr t"
    by blast
  have m: "priv_interpolation_method t = ''linear''"
    using t by (rule init_data)
  from set_interpolation_method_frame [of "''spline''" t]
    set_interpolation_method_frame [of "''cubic''" t] t m
  show ?thesis by simp
qed

lemma log10_power: "log 10 (10 ^ n) = real n"
  by simp

lemma log10_values:
  "log 10 100 = 2" "log 10 1000 = 3" "log 10 100000 = 5" "log 10 10000000 = 7"
  "log 10 1000000000 = 9"
  using log10_power [of 2] log10_power [of 3] log10_power [of 5] log10_power [of 7]
    log10_power [of 9]
  by simp_all

lemma sqrt_millionth: "sqrt (1 / 1000000) = 1 / 1000"
  by (simp add: real_sqrt_divide)

lemma weighted_sum_le:
  assumes "length w = length xs" and "\<forall>c \<in> set w. (0::real) \<le> c"
    and "\<forall>x \<in> set xs. f x \<le> M"
  shows "sum_list (map2 (\<lambda>c p. c * f p) w xs) \<le> M * sum_list w"
  using assms
proof (induction w xs rule: list_induct2)
  case Nil
  then show ?case by simp
next
  case (Cons c w x xs)
  then have "c * f x \<le> c * M" by (simp add: mult_left_mono)
  moreover have "sum_list (map2 (\<lambda>c p. c * f p) w xs) \<le> M * sum_list w"
    using Cons by simp
  ultimately show ?case by (simp add: algebra_simps)
qed

lemma weighted_sum_ge:
  assumes "length w = length xs" and "\<forall>c \<in> set w. (0::real) \<le> c"
    and "\<forall>x \<in> set xs. m \<le> f x"
  shows "m * sum_list w \<le> sum_list (map2 (\<lambda>c p. c * f p) w xs)"
  using assms
proof (induction w xs rule: list_induct2)
  case Nil
  then show ?case by simp
next
  case (Cons c w x xs)
  then have "c * m \<le> c * f x" by (simp add: mult_left_mono)
  moreover have "m * sum_list w \<le> sum_list (map2 (\<lambda>c p. c * f p) w xs)"
    using Cons by simp
  ultimately show ?case by (simp add: algebra_simps)
qed

lemma in_hull_fst_le:
  assumes "in_hull ps q" and "\<forall>p \<in> set ps. fst p \<le> M"
  shows "fst q \<le> M"
proof -
  from assms(1) obtain w where w: "length w = length ps" "\<forall>c \<in> set w. 0 \<le> c"
    "sum_list w = 1" "sum_list (map2 (\<lambda>c p. c * fst p) w ps) = fst q"
    unfolding in_hull_def by blast
  from weighted_sum_le [OF w(1,2) assms(2)] w(3,4) show ?thesis by simp
qed

lemma in_hull_snd_ge:
  assumes "in_hull ps q" and "\<forall>p \<in> set ps. m \<le> snd p"
  shows "m \<le> snd q"
proof -
  from assms(1) obtain w where w: "length w = length ps" "\<forall>c \<in> set w. 0 \<le> c"
    "sum_list w = 1" "sum_list (map2 (\<lambda>c p. c * snd p) w ps) = snd q"
    unfolding in_hull_def by blast
  from weighted_sum_ge [OF w(1,2) assms(2)] w(3,4) show ?thesis by simp
qed

lemma finite_points_fst_le:
  "\<forall>p \<in> set ps. fst p \<le> M \<Longrightarrow> \<forall>p \<in> set (finite_points ps). fst p \<le> M"
  by (induction ps rule: finite_points.induct) simp_all

lemma gev_node_query_outside:
  "\<not> in_hull [(0, 3), (0, 5), (0, 7), (0, 9), (60, 3), (60, 5), (60, 7), (60, 9),
               (120, 3), (120, 5), (120, 7), (120, 9), (180, 3), (180, 5), (180, 7), (180, 9)]
       (1, 2)"
  using in_hull_snd_ge [of "[(0, 3), (0, 5), (0, 7), (0, 9), (60, 3), (60, 5), (60, 7), (60, 9),
               (120, 3), (120, 5), (120, 7), (120, 9), (180, 3), (180, 5), (180, 7), (180, 9)]"
      "(1, 2)" 3]
  by auto

lemma gev_init:
  "\<exists>t. OffsetDependentTableEffectiveArea_init gev_energ_lo gev_energ_hi arcmin_offset
          arcmin_offset gev_eff_area gev_eff_area = Inr t
       \<and> energ_lo t = \<lparr>q_value = [1 / 10, 10, 1000, 100000], q_unit = TeV\<rparr>
       \<and> energ_hi t = \<lparr>q_value = [10, 1000, 100000, 10000000], q_unit = TeV\<rparr>
       \<and> offset_lo t = \<lparr>q_value = [0, 1, 2, 3], q_unit = degree\<rparr>
       \<and> offset_hi t = \<lparr>q_value = [0, 1, 2, 3], q_unit = degree\<rparr>
       \<and> eff_area t =
           \<lparr>q_value = [[10, 20, 30, 40], [50, 60, 70, 80],
                        [90, 100, 110, 120], [130, 140, 150, 160]],
            q_unit = m2\<rparr>
       \<and> offset t = \<lparr>q_value = [0, 60, 120, 180], q_unit = arcmin\<rparr>
       \<and> energy t =
           \<lparr>q_value = [Fin 1000, Fin 100000, Fin 10000000, Fin 1000000000], q_unit = GeV\<rparr>
       \<and> priv_linear t =
           \<lparr>lin_points =
              [(0, Fin 3), (0, Fin 5), (0, Fin 7), (0, Fin 9),
               (60, Fin 3), (60, Fin 5), (60, Fin 7), (60, Fin 9),
               (120, Fin 3), (120, Fin 5), (120, Fin 7), (120, Fin 9),
               (180, Fin 3), (180, Fin 5), (180, Fin 7), (180, Fin 9)],
            lin_values = [10, 20, 30, 40, 50, 60, 70, 80, 90, 100, 110, 120,
                          130, 140, 150, 160]\<rparr>
       \<and> priv_interpolation_method t = ''linear''"
  by (simp add: OffsetDependentTableEffectiveArea_init_def gev_energ_lo_def gev_energ_hi_def
      arcmin_offset_def gev_eff_area_def bind_def q_to_def q_add_def
      q_mul_def q_sqrt_def q_div_def broadcast2_def TeV_def GeV_def degree_def arcmin_def m2_def
      energy_dims_def angle_dims_def area_dims_def aeff_data.extend_def Let_def
      dims_add_def dims_half_def np_sqrt_def np_log10_def sqrt_millionth log10_values
      prepare_linear_interpolator_def prepare_spline_interpolator_def
      LinearNDInterpolator_init_def RectBivariateSpline_init_def flatten_def)

text \<open>
  C4. The constructor brings the six arrays it is given to TeV, degree and square metre,
  but it takes the bin centres from the arrays as they were handed in. For the grid of
  four offsets in arcmin and four energy bins in GeV, which the constructor accepts, the
  stored offset centres are 0, 60, 120 and 180 arcmin and the stored energy centres are
  in GeV: neither is in its canonical unit.
\<close>

theorem init_centers_keep_input_units:
  "\<exists>t. OffsetDependentTableEffectiveArea_init gev_energ_lo gev_energ_hi arcmin_offset
          arcmin_offset gev_eff_area gev_eff_area = Inr t
       \<and> q_unit (energ_lo t) = TeV \<and> q_unit (energ_hi t) = TeV
       \<and> q_unit (offset_lo t) = degree \<and> q_unit (offset_hi t) = degree
       \<and> q_unit (eff_area t) = m2
       \<and> offset t = \<lparr>q_value = [0, 60, 120, 180], q_unit = arcmin\<rparr>
       \<and> energy t =
           \<lparr>q_value = [Fin 1000, Fin 100000, Fin 10000000, Fin 1000000000], q_unit = GeV\<rparr>
       \<and> q_unit (offset t) \<noteq> degree \<and> q_unit (energy t) \<noteq> TeV"
proof -
  from gev_init obtain t where
    "OffsetDependentTableEffectiveArea_init gev_energ_lo gev_energ_hi arcmin_offset
          arcmin_offset gev_eff_area gev_eff_area = Inr t"
    "energ_lo t = \<lparr>q_value = [1 / 10, 10, 1000, 100000], q_unit = TeV\<rparr>"
    "energ_hi t = \<lparr>q_value = [10, 1000, 100000, 10000000], q_unit = TeV\<rparr>"
    "offset_lo t = \<lparr>q_value = [0, 1, 2, 3], q_unit = degree\<rparr>"
    "offset_hi t = \<lparr>q_value = [0, 1, 2, 3], q_unit = degree\<rparr>"
    "eff_area t =
           \<lparr>q_value = [[10, 20, 30, 40], [50, 60, 70, 80],
                        [90, 100, 110, 120], [130, 140, 150, 160]],
            q_unit = m2\<rparr>"
    "offset t = \<lparr>q_value = [0, 60, 120, 180], q_unit = arcmin\<rparr>"
    "energy t =
           \<lparr>q_value = [Fin 1000, Fin 100000, Fin 10000000, Fin 1000000000], q_unit = GeV\<rparr>"
    by blast
  then show ?thesis
    by (intro exI [of _ t]) (simp add: arcmin_def degree_def GeV_def TeV_def)
qed

text \<open>
  C2. The table built from four offsets in arcmin and four energy bins in GeV has a grid
  node at offset centre 60 arcmin and energy centre 100000 GeV, with area 60; the
  interpolator holds that node as the point \<open>(60, 5)\<close>, at position 5.
  \<^verbatim>\<open>evaluate\<close> at this node brings the query to degree and TeV first and so asks the
  interpolator at \<open>(1, 2)\<close>, which is none of its points and lies below all of them in
  the second coordinate: with an interpolant that is undefined outside the hull of its
  points, the answer is NaN and not 60.
\<close>

theorem evaluate_at_node_other_units:
  "\<exists>t. OffsetDependentTableEffectiveArea_init gev_energ_lo gev_energ_hi arcmin_offset
          arcmin_offset gev_eff_area gev_eff_area = Inr t
       \<and> q_value (offset t) ! 1 = 60 \<and> q_unit (offset t) = arcmin
       \<and> q_value (energy t) ! 1 = Fin 100000 \<and> q_unit (energy t) = GeV
       \<and> q_value (eff_area t) ! 1 ! 1 = 60
       \<and> lin_points (priv_linear t) =
           [(0, Fin 3), (0, Fin 5), (0, Fin 7), (0, Fin 9),
            (60, Fin 3), (60, Fin 5), (60, Fin 7), (60, Fin 9),
            (120, Fin 3), (120, Fin 5), (120, Fin 7), (120, Fin 9),
            (180, Fin 3), (180, Fin 5), (180, Fin 7), (180, Fin 9)]
       \<and> lin_points (priv_linear t) ! 5 = (60, Fin 5)
       \<and> lin_values (priv_linear t) ! 5 = 60
       \<and> (\<forall>lin spl.
            evaluate lin spl t (Angle \<lparr>q_value = Scalar 60, q_unit = arcmin\<rparr>)
              (Quantity \<lparr>q_value = Scalar 100000, q_unit = GeV\<rparr>)
            = Inr \<lparr>q_value = Arr0 (lin (priv_linear t) (1, Fin 2)), q_unit = m2\<rparr>)
       \<and> (\<forall>bary spl.
            evaluate (LinearNDInterpolator_value bary) spl t
              (Angle \<lparr>q_value = Scalar 60, q_unit = arcmin\<rparr>)
              (Quantity \<lparr>q_value = Scalar 100000, q_unit = GeV\<rparr>)
            = Inr \<lparr>q_value = Arr0 NaN, q_unit = m2\<rparr>)"
proof -
  from gev_init obtain t where t:
    "OffsetDependentTableEffectiveArea_init gev_energ_lo gev_energ_hi arcmin_offset
          arcmin_offset gev_eff_area gev_eff_area = Inr t"
    "eff_area t =
           \<lparr>q_value = [[10, 20, 30, 40], [50, 60, 70, 80],
                        [90, 100, 110, 120], [130, 140, 150, 160]],
            q_unit = m2\<rparr>"
    "offset t = \<lparr>q_value = [0, 60, 120, 180], q_unit = arcmin\<rparr>"
    "energy t =
           \<lparr>q_value = [Fin 1000, Fin 100000, Fin 10000000, Fin 1000000000], q_unit = GeV\<rparr>"
    "priv_linear t =
           \<lparr>lin_points =
              [(0, Fin 3), (0, Fin 5), (0, Fin 7), (0, Fin 9),
               (60, Fin 3), (60, Fin 5), (60, Fin 7), (60, Fin 9),
               (120, Fin 3), (120, Fin 5), (120, Fin 7), (120, Fin 9),
               (180, Fin 3), (180, Fin 5), (180, Fin 7), (180, Fin 9)],
            lin_values = [10, 20, 30, 40, 50, 60, 70, 80, 90, 100, 110, 120,
                          130, 140, 150, 160]\<rparr>"
    "priv_interpolation_method t = ''linear''"
    by blast
  have ev: "evaluate lin spl t (Angle \<lparr>q_value = Scalar 60, q_unit = arcmin\<rparr>)
              (Quantity \<lparr>q_value = Scalar 100000, q_unit = GeV\<rparr>)
            = Inr \<lparr>q_value = Arr0 (lin (priv_linear t) (1, Fin 2)), q_unit = m2\<rparr>"
    for lin spl
    by (simp add: evaluate_def t(2,6) bind_def q_to_def arcmin_def degree_def GeV_def TeV_def
        np_log10_def log10_values)
  have "LinearNDInterpolator_value bary (priv_linear t) (1, Fin 2) = NaN" for bary
    by (simp add: LinearNDInterpolator_value_def t(5) gev_node_query_outside)
  then show ?thesis
    by (intro exI [of _ t]) (simp add: t ev eval_nat_numeral)
qed

text \<open>
  C6. On the grid of four offset bins and four energy bins, which the constructor
  accepts: for an offset vector and an energy vector of two entries each, the linear
  method returns the two values at the pairs \<open>(offset k, energy k)\<close>, an array of shape
  \<open>(2)\<close>. The spline method returns the values on the whole grid of the two vectors,
  an array of shape \<open>(2, 2)\<close>: \<^verbatim>\<open>squeeze\<close> drops no axis of it.
\<close>

theorem spline_evaluates_on_grid:
  "\<exists>t. OffsetDependentTableEffectiveArea_init grid_energ_lo grid_energ_hi grid_offset_lo
          grid_offset_hi grid_eff_area grid_eff_area = Inr t
       \<and> (\<forall>lin spl.
            evaluate lin spl t (Angle \<lparr>q_value = Vec [1 / 2, 1], q_unit = degree\<rparr>)
              (Quantity \<lparr>q_value = Vec [1, 10], q_unit = TeV\<rparr>)
            = Inr \<lparr>q_value = Arr1 [lin (priv_linear t) (1 / 2, Fin 0),
                                     lin (priv_linear t) (1, Fin 1)],
                   q_unit = m2\<rparr>
          \<and> evaluate lin spl (snd (set_interpolation_method t ''spline''))
              (Angle \<lparr>q_value = Vec [1 / 2, 1], q_unit = degree\<rparr>)
              (Quantity \<lparr>q_value = Vec [1, 10], q_unit = TeV\<rparr>)
            = Inr \<lparr>q_value = Arr2 2 [[spl (priv_spline t) (1 / 2) (Fin 0),
                                        spl (priv_spline t) (1 / 2) (Fin 1)],
                                       [spl (priv_spline t) 1 (Fin 0),
                                        spl (priv_spline t) 1 (Fin 1)]],
                   q_unit = m2\<rparr>)"
proof -
  from grid_init obtain t where t:
    "OffsetDependentTableEffectiveArea_init grid_energ_lo grid_energ_hi grid_offset_lo
          grid_offset_hi grid_eff_area grid_eff_area = Inr t"
    by blast
  have m: "priv_interpolation_method t = ''linear''"
    using t by (rule init_data)
  have u: "q_unit (eff_area t) = m2"
    using t by (rule init_area_unit)
  have l: "evaluate lin spl t (Angle \<lparr>q_value = Vec [1 / 2, 1], q_unit = degree\<rparr>)
              (Quantity \<lparr>q_value = Vec [1, 10], q_unit = TeV\<rparr>)
            = Inr \<lparr>q_value = Arr1 [lin (priv_linear t) (1 / 2, Fin 0),
                                     lin (priv_linear t) (1, Fin 1)],
                   q_unit = m2\<rparr>" for lin spl
    by (simp add: evaluate_def m u bind_def q_to_def degree_def TeV_def np_log10_def
        broadcast2_def)
  have s: "evaluate lin spl (snd (set_interpolation_method t ''spline''))
              (Angle \<lparr>q_value = Vec [1 / 2, 1], q_unit = degree\<rparr>)
              (Quantity \<lparr>q_value = Vec [1, 10], q_unit = TeV\<rparr>)
            = Inr \<lparr>q_value = Arr2 2 [[spl (priv_spline t) (1 / 2) (Fin 0),
                                        spl (priv_spline t) (1 / 2) (Fin 1)],
                                       [spl (priv_spline t) 1 (Fin 0),
                                        spl (priv_spline t) 1 (Fin 1)]],
                   q_unit = m2\<rparr>" for lin spl
    by (simp add: evaluate_def set_interpolation_method_def u bind_def q_to_def degree_def
        TeV_def np_log10_def RectBivariateSpline_call_def)
  show ?thesis
    by (intro exI [of _ t]) (simp add: t l s)
qed

lemma init_point_nth:
  assumes "OffsetDependentTableEffectiveArea_init a1 a2 a3 a4 a5 a6 = Inr t"
    and "i < length (q_value (offset t))" and "j < length (q_value (energy t))"
  shows "lin_points (priv_linear t) ! (i * length (q_value (energy t)) + j)
           = (q_value (offset t) ! i, np_log10_fl (q_value (energy t) ! j))"
proof -
  let ?x = "q_value (offset t)" and ?e = "q_value (energy t)"
  let ?y = "map np_log10_fl ?e"
  have pts: "lin_points (priv_linear t) = concat (map (\<lambda>xx. map (Pair xx) ?y) ?x)"
    using init_data(1) [OF assms(1)] by simp
  have j: "j < length ?y" using assms(3) by simp
  have "lin_points (priv_linear t) ! (i * length ?y + j) = (?x ! i, ?y ! j)"
    unfolding pts using assms(2) j by (rule concat_product_nth)
  then show ?thesis using assms(3) by simp
qed

lemma init_value_nth:
  assumes "OffsetDependentTableEffectiveArea_init a1 a2 a3 a4 a5 a6 = Inr t"
    and "length (q_value (eff_area t)) = length (q_value (offset t))"
    and "\<forall>row \<in> set (q_value (eff_area t)). length row = length (q_value (energy t))"
    and "i < length (q_value (offset t))" and "j < length (q_value (energy t))"
  shows "lin_values (priv_linear t) ! (i * length (q_value (energy t)) + j)
           = q_value (eff_area t) ! i ! j"
proof -
  have vals: "lin_values (priv_linear t) = concat (q_value (eff_area t))"
    using assms(1) by (rule init_data)
  show ?thesis
    unfolding vals using assms(3) _ assms(5)
    by (rule concat_rows_nth) (simp add: assms(2) assms(4))
qed

lemma dims_half_energy: "dims_half (dims_add energy_dims energy_dims) = energy_dims"
  by (simp add: dims_half_def dims_add_def energy_dims_def)

text \<open>
  X3. A table that the constructor returns, for lower and upper edges of the same number,
  holds the six arrays in TeV, degree and square metre. Its offset centres are
  \<open>(offset_hi + offset_lo) / 2\<close> in the unit of \<open>offset_hi\<close>, and its energy centres are
  \<open>sqrt (energ_lo * energ_hi)\<close> in the unit that is the geometric mean of the two energy
  units.
\<close>

theorem init_stores:
  assumes "OffsetDependentTableEffectiveArea_init (Quantity e_lo) (Quantity e_hi)
             (Angle o_lo) (Angle o_hi) (Quantity ea) (Quantity ear) = Inr t"
    and "length (q_value e_lo) = length (q_value e_hi)"
    and "length (q_value o_lo) = length (q_value o_hi)"
  shows "energ_lo t = \<lparr>q_value = map (\<lambda>v. v * scale (q_unit e_lo)) (q_value e_lo),
                         q_unit = TeV\<rparr>
       \<and> energ_hi t = \<lparr>q_value = map (\<lambda>v. v * scale (q_unit e_hi)) (q_value e_hi),
                         q_unit = TeV\<rparr>
       \<and> offset_lo t = \<lparr>q_value = map (\<lambda>v. v * scale (q_unit o_lo)) (q_value o_lo),
                          q_unit = degree\<rparr>
       \<and> offset_hi t = \<lparr>q_value = map (\<lambda>v. v * scale (q_unit o_hi)) (q_value o_hi),
                          q_unit = degree\<rparr>
       \<and> eff_area t = \<lparr>q_value = map (map (\<lambda>v. v * scale (q_unit ea))) (q_value ea),
                         q_unit = m2\<rparr>
       \<and> eff_area_reco t = \<lparr>q_value = map (map (\<lambda>v. v * scale (q_unit ear))) (q_value ear),
                              q_unit = m2\<rparr>
       \<and> offset t =
           \<lparr>q_value = map2 (\<lambda>h l. (h + l * scale (q_unit o_lo) / scale (q_unit o_hi)) / 2)
                         (q_value o_hi) (q_value o_lo),
            q_unit = q_unit o_hi\<rparr>
       \<and> energy t =
           \<lparr>q_value = map2 (\<lambda>l h. np_sqrt (l * h)) (q_value e_lo) (q_value e_hi),
            q_unit = \<lparr>dims = energy_dims,
                      scale = sqrt (scale (q_unit e_lo) * scale (q_unit e_hi))\<rparr>\<rparr>"
proof -
  have m1: "map2 (+) xs (map f ys) = map2 (\<lambda>h l. h + f l) xs ys" for xs ys :: "real list" and f
    by (induction xs ys rule: list_induct2') simp_all
  have m2': "map g (map2 f xs ys) = map2 (\<lambda>a b. g (f a b)) xs ys"
    for xs ys :: "real list" and f :: "real \<Rightarrow> real \<Rightarrow> real" and g :: "real \<Rightarrow> 'b"
    by (induction xs ys rule: list_induct2') simp_all
  from assms(1) obtain lo' hi' olo' ohi' ea' ear' osum eprod where c:
    "q_to map TeV e_lo = Inr lo'" "q_to map TeV e_hi = Inr hi'"
    "q_to map degree o_lo = Inr olo'" "q_to map degree o_hi = Inr ohi'"
    "q_to (\<lambda>f. map (map f)) m2 ea = Inr ea'" "q_to (\<lambda>f. map (map f)) m2 ear = Inr ear'"
    "q_add o_hi o_lo = Inr osum" "q_mul e_lo e_hi = Inr eprod"
    and f: "energ_lo t = lo'" "energ_hi t = hi'" "offset_lo t = olo'" "offset_hi t = ohi'"
    "eff_area t = ea'" "eff_area_reco t = ear'"
    "offset t = q_div osum 2" "energy t = q_sqrt eprod"
    by (rule init_Inr) simp
  have d: "dims (q_unit e_lo) = energy_dims" "dims (q_unit e_hi) = energy_dims"
    "dims (q_unit o_lo) = angle_dims" "dims (q_unit o_hi) = angle_dims"
    using c(1,2,3,4) by (auto simp: q_to_def TeV_def degree_def split: if_splits)
  have 1: "lo' = \<lparr>q_value = map (\<lambda>v. v * scale (q_unit e_lo)) (q_value e_lo), q_unit = TeV\<rparr>"
    "hi' = \<lparr>q_value = map (\<lambda>v. v * scale (q_unit e_hi)) (q_value e_hi), q_unit = TeV\<rparr>"
    using c(1,2) by (auto simp: q_to_def TeV_def split: if_splits)
  have 2: "olo' = \<lparr>q_value = map (\<lambda>v. v * scale (q_unit o_lo)) (q_value o_lo),
                    q_unit = degree\<rparr>"
    "ohi' = \<lparr>q_value = map (\<lambda>v. v * scale (q_unit o_hi)) (q_value o_hi), q_unit = degree\<rparr>"
    using c(3,4) by (auto simp: q_to_def degree_def split: if_splits)
  have 3: "ea' = \<lparr>q_value = map (map (\<lambda>v. v * scale (q_unit ea))) (q_value ea), q_unit = m2\<rparr>"
    "ear' = \<lparr>q_value = map (map (\<lambda>v. v * scale (q_unit ear))) (q_value ear), q_unit = m2\<rparr>"
    using c(5,6) by (auto simp: q_to_def m2_def split: if_splits)
  have 4: "osum = \<lparr>q_value = map2 (\<lambda>h l. h + l * scale (q_unit o_lo) / scale (q_unit o_hi))
                                (q_value o_hi) (q_value o_lo),
                    q_unit = q_unit o_hi\<rparr>"
    using c(7) d assms(3)
    by (auto simp: q_add_def bind_def q_to_def broadcast2_def m1 split: if_splits)
  have 5: "eprod = \<lparr>q_value = map2 (*) (q_value e_lo) (q_value e_hi),
                     q_unit = \<lparr>dims = dims_add energy_dims energy_dims,
                               scale = scale (q_unit e_lo) * scale (q_unit e_hi)\<rparr>\<rparr>"
    using c(8) d assms(2) by (auto simp: q_mul_def broadcast2_def)
  show ?thesis
    by (simp add: f 1 2 3 4 5 q_div_def q_sqrt_def m2' dims_half_energy case_prod_beta)
qed

theorem init_stores_witness:
  "\<exists>t. OffsetDependentTableEffectiveArea_init gev_energ_lo gev_energ_hi arcmin_offset
          arcmin_offset gev_eff_area gev_eff_area = Inr t
       \<and> energ_lo t = \<lparr>q_value = [1 / 10, 10, 1000, 100000], q_unit = TeV\<rparr>
       \<and> offset_hi t = \<lparr>q_value = [0, 1, 2, 3], q_unit = degree\<rparr>
       \<and> offset t = \<lparr>q_value = [0, 60, 120, 180], q_unit = arcmin\<rparr>
       \<and> q_value (energy t) = [Fin 1000, Fin 100000, Fin 10000000, Fin 1000000000]"
proof -
  from gev_init obtain t where t:
    "OffsetDependentTableEffectiveArea_init gev_energ_lo gev_energ_hi arcmin_offset
          arcmin_offset gev_eff_area gev_eff_area = Inr t"
    by blast
  from init_stores [OF t [unfolded gev_energ_lo_def gev_energ_hi_def arcmin_offset_def
        gev_eff_area_def]]
  show ?thesis
    by (intro exI [of _ t]) (simp add: t GeV_def arcmin_def np_sqrt_def)
qed

text \<open>
  X4. For one offset and one energy, \<^verbatim>\<open>evaluate\<close> returns the number the active
  interpolator gives at \<open>(offset in degree, log10 (energy in TeV))\<close>, whatever it is
  (NaN included), tagged with the unit of the stored areas: it neither raises nor changes
  the number.
\<close>

theorem evaluate_forwards_scalar:
  assumes "dims uo = angle_dims" and "dims ue = energy_dims"
  shows "(priv_interpolation_method self = ''linear'' \<longrightarrow>
            evaluate lin spl self (Angle \<lparr>q_value = Scalar x, q_unit = uo\<rparr>)
              (Quantity \<lparr>q_value = Scalar e, q_unit = ue\<rparr>)
            = Inr \<lparr>q_value = Arr0 (lin (priv_linear self)
                                      (x * scale uo, np_log10 (e * scale ue))),
                   q_unit = q_unit (eff_area self)\<rparr>)
       \<and> (priv_interpolation_method self = ''spline'' \<longrightarrow>
            evaluate lin spl self (Angle \<lparr>q_value = Scalar x, q_unit = uo\<rparr>)
              (Quantity \<lparr>q_value = Scalar e, q_unit = ue\<rparr>)
            = Inr \<lparr>q_value = Arr0 (spl (priv_spline self)
                                      (x * scale uo) (np_log10 (e * scale ue))),
                   q_unit = q_unit (eff_area self)\<rparr>)"
  using assms
  by (simp add: evaluate_def bind_def q_to_def degree_def TeV_def RectBivariateSpline_call_def)

theorem evaluate_forwards_scalar_witness:
  "\<exists>t. OffsetDependentTableEffectiveArea_init grid_energ_lo grid_energ_hi grid_offset_lo
          grid_offset_hi grid_eff_area grid_eff_area = Inr t
       \<and> (\<forall>lin spl.
            evaluate lin spl t (Angle \<lparr>q_value = Scalar 600, q_unit = arcmin\<rparr>)
              (Quantity \<lparr>q_value = Scalar 10000, q_unit = GeV\<rparr>)
            = Inr \<lparr>q_value = Arr0 (lin (priv_linear t) (10, Fin 1)), q_unit = m2\<rparr>
          \<and> evaluate lin spl (snd (set_interpolation_method t ''spline''))
              (Angle \<lparr>q_value = Scalar 600, q_unit = arcmin\<rparr>)
              (Quantity \<lparr>q_value = Scalar 10000, q_unit = GeV\<rparr>)
            = Inr \<lparr>q_value = Arr0 (spl (priv_spline t) 10 (Fin 1)), q_unit = m2\<rparr>)"
proof -
  from grid_init obtain t where t:
    "OffsetDependentTableEffectiveArea_init grid_energ_lo grid_energ_hi grid_offset_lo
          grid_offset_hi grid_eff_area grid_eff_area = Inr t"
    by blast
  have m: "priv_interpolation_method t = ''linear''"
    using t by (rule init_data)
  have u: "q_unit (eff_area t) = m2"
    using t by (rule init_area_unit)
  have d: "dims arcmin = angle_dims" "dims GeV = energy_dims"
    by (simp_all add: arcmin_def GeV_def)
  from evaluate_forwards_scalar [OF d, of t _ _ 600 10000]
    evaluate_forwards_scalar [OF d, of "snd (set_interpolation_method t ''spline'')" _ _ 600 10000]
  show ?thesis
    by (intro exI [of _ t])
       (simp add: t m u set_interpolation_method_def arcmin_def GeV_def np_log10_def)
qed

text \<open>
  X5. For a table built from energies in TeV and offsets in degree, \<^verbatim>\<open>evaluate\<close> with
  the linear method at the grid node \<open>(i, j)\<close> asks the linear interpolator at the very
  point it holds at position \<open>i * n_energy + j\<close>, and the value it holds there is
  \<open>eff_area[i][j]\<close>.
\<close>

theorem evaluate_at_node_canonical:
  assumes "OffsetDependentTableEffectiveArea_init (Quantity e_lo) (Quantity e_hi)
             (Angle o_lo) (Angle o_hi) (Quantity ea) (Quantity ear) = Inr t"
    and "q_unit e_lo = TeV" and "q_unit e_hi = TeV" and "q_unit o_hi = degree"
    and "length (q_value (eff_area t)) = length (q_value (offset t))"
    and "\<forall>row \<in> set (q_value (eff_area t)). length row = length (q_value (energy t))"
    and "i < length (q_value (offset t))" and "j < length (q_value (energy t))"
    and "q_value (energy t) ! j = Fin e"
  shows "evaluate lin spl t (Angle \<lparr>q_value = Scalar (q_value (offset t) ! i),
                                    q_unit = q_unit (offset t)\<rparr>)
           (Quantity \<lparr>q_value = Scalar e, q_unit = q_unit (energy t)\<rparr>)
         = Inr \<lparr>q_value = Arr0 (lin (priv_linear t)
                   (lin_points (priv_linear t) ! (i * length (q_value (energy t)) + j))),
                q_unit = m2\<rparr>
       \<and> lin_values (priv_linear t) ! (i * length (q_value (energy t)) + j)
           = q_value (eff_area t) ! i ! j"
proof -
  from assms(1) obtain osum eprod where
    c: "q_add o_hi o_lo = Inr osum" "q_mul e_lo e_hi = Inr eprod"
       "offset t = q_div osum 2" "energy t = q_sqrt eprod"
    by (rule init_Inr) simp
  have m: "priv_interpolation_method t = ''linear''"
    using assms(1) by (rule init_data)
  have ua: "q_unit (eff_area t) = m2"
    using assms(1) by (rule init_area_unit)
  have uo: "q_unit (offset t) = degree"
    using c(1,3) assms(4) by (simp add: q_div_def q_add_unit)
  have ue: "q_unit (energy t) = TeV"
    using c(2,4) assms(2,3)
    by (simp add: q_sqrt_def q_mul_unit TeV_def dims_half_energy)
  have pt: "lin_points (priv_linear t) ! (i * length (q_value (energy t)) + j)
              = (q_value (offset t) ! i, np_log10 e)"
    using init_point_nth [OF assms(1,7,8)] assms(9) by simp
  have "evaluate lin spl t (Angle \<lparr>q_value = Scalar (q_value (offset t) ! i), q_unit = degree\<rparr>)
           (Quantity \<lparr>q_value = Scalar e, q_unit = TeV\<rparr>)
         = Inr \<lparr>q_value = Arr0 (lin (priv_linear t) (q_value (offset t) ! i, np_log10 e)),
                q_unit = m2\<rparr>"
    by (simp add: evaluate_def m ua bind_def q_to_def degree_def TeV_def)
  moreover have "lin_values (priv_linear t) ! (i * length (q_value (energy t)) + j)
           = q_value (eff_area t) ! i ! j"
    using assms(1,5,6,7,8) by (rule init_value_nth)
  ultimately show ?thesis by (simp add: uo ue pt)
qed

theorem evaluate_at_node_canonical_witness:
  "\<exists>t. OffsetDependentTableEffectiveArea_init grid_energ_lo grid_energ_hi grid_offset_lo
          grid_offset_hi grid_eff_area grid_eff_area = Inr t
       \<and> q_value (offset t) ! 1 = 3 / 2 \<and> q_unit (offset t) = degree
       \<and> q_value (energy t) ! 0 = Fin (sqrt 2) \<and> q_unit (energy t) = TeV
       \<and> lin_values (priv_linear t) ! 4 = 200
       \<and> (\<forall>lin spl.
            evaluate lin spl t (Angle \<lparr>q_value = Scalar (3 / 2), q_unit = degree\<rparr>)
              (Quantity \<lparr>q_value = Scalar (sqrt 2), q_unit = TeV\<rparr>)
            = Inr \<lparr>q_value = Arr0 (lin (priv_linear t) (lin_points (priv_linear t) ! 4)),
                   q_unit = m2\<rparr>)"
proof -
  from grid_init obtain t where
    t: "OffsetDependentTableEffectiveArea_init grid_energ_lo grid_energ_hi grid_offset_lo
          grid_offset_hi grid_eff_area grid_eff_area = Inr t"
    and x: "offset t = \<lparr>q_value = [1 / 2, 3 / 2, 5 / 2, 7 / 2], q_unit = degree\<rparr>"
    and e: "q_value (energy t) = [np_sqrt 2, np_sqrt 8, np_sqrt 32, np_sqrt 128]"
    and ue: "q_unit (energy t) = TeV"
    and a: "eff_area t =
           \<lparr>q_value = [[100, 200, 300, 400], [200, 400, 600, 800],
                        [300, 600, 900, 1200], [400, 800, 1200, 1600]],
            q_unit = m2\<rparr>"
    by blast
  have "evaluate lin spl t (Angle \<lparr>q_value = Scalar (q_value (offset t) ! 1),
                                    q_unit = q_unit (offset t)\<rparr>)
           (Quantity \<lparr>q_value = Scalar (sqrt 2), q_unit = q_unit (energy t)\<rparr>)
         = Inr \<lparr>q_value = Arr0 (lin (priv_linear t)
                   (lin_points (priv_linear t) ! (1 * length (q_value (energy t)) + 0))),
                q_unit = m2\<rparr>
       \<and> lin_values (priv_linear t) ! (1 * length (q_value (energy t)) + 0)
           = q_value (eff_area t) ! 1 ! 0" for lin spl
    by (rule evaluate_at_node_canonical
          [OF t [unfolded grid_energ_lo_def grid_energ_hi_def grid_offset_lo_def
                  grid_offset_hi_def grid_eff_area_def]])
       (simp_all add: x e a np_sqrt_def)
  then show ?thesis
    by (intro exI [of _ t]) (simp add: t x e a ue np_sqrt_def eval_nat_numeral)
qed

text \<open>
  X6. With the linear method, an offset vector and an energy vector of the same length
  give a one-dimensional result of that length, whose entry \<open>k\<close> is what the
  interpolator gives at \<open>(offset k in degree, log10 (energy k in TeV))\<close>.
\<close>

theorem evaluate_linear_pairs:
  assumes "dims uo = angle_dims" and "dims ue = energy_dims"
    and "priv_interpolation_method self = ''linear''"
    and "length xs = length es"
  shows "evaluate lin spl self (Angle \<lparr>q_value = Vec xs, q_unit = uo\<rparr>)
           (Quantity \<lparr>q_value = Vec es, q_unit = ue\<rparr>)
         = Inr \<lparr>q_value = Arr1 (map2 (\<lambda>x e. lin (priv_linear self)
                                           (x * scale uo, np_log10 (e * scale ue))) xs es),
                q_unit = q_unit (eff_area self)\<rparr>"
proof -
  have z: "map F (zip (map g xs) (map h es)) = map2 (\<lambda>x e. F (g x, h e)) xs es"
    for F :: "real \<times> fl \<Rightarrow> fl" and g h
    using assms(4) by (induction xs es rule: list_induct2) simp_all
  show ?thesis
    using assms
    by (simp add: evaluate_def bind_def q_to_def degree_def TeV_def broadcast2_def z)
qed

theorem evaluate_linear_pairs_witness:
  "\<exists>t. OffsetDependentTableEffectiveArea_init grid_energ_lo grid_energ_hi grid_offset_lo
          grid_offset_hi grid_eff_area grid_eff_area = Inr t
       \<and> (\<forall>lin spl.
            evaluate lin spl t (Angle \<lparr>q_value = Vec [60, 30, 120], q_unit = arcmin\<rparr>)
              (Quantity \<lparr>q_value = Vec [1000, 10000, 1000], q_unit = GeV\<rparr>)
            = Inr \<lparr>q_value = Arr1 [lin (priv_linear t) (1, Fin 0),
                                     lin (priv_linear t) (1 / 2, Fin 1),
                                     lin (priv_linear t) (2, Fin 0)],
                   q_unit = m2\<rparr>)"
proof -
  from grid_init obtain t where t:
    "OffsetDependentTableEffectiveArea_init grid_energ_lo grid_energ_hi grid_offset_lo
          grid_offset_hi grid_eff_area grid_eff_area = Inr t"
    by blast
  have m: "priv_interpolation_method t = ''linear''"
    using t by (rule init_data)
  have u: "q_unit (eff_area t) = m2"
    using t by (rule init_area_unit)
  have d: "dims arcmin = angle_dims" "dims GeV = energy_dims"
    by (simp_all add: arcmin_def GeV_def)
  have "evaluate lin spl t (Angle \<lparr>q_value = Vec [60, 30, 120], q_unit = arcmin\<rparr>)
              (Quantity \<lparr>q_value = Vec [1000, 10000, 1000], q_unit = GeV\<rparr>)
            = Inr \<lparr>q_value = Arr1 [lin (priv_linear t) (1, Fin 0),
                                     lin (priv_linear t) (1 / 2, Fin 1),
                                     lin (priv_linear t) (2, Fin 0)],
                   q_unit = m2\<rparr>" for lin spl
    using evaluate_linear_pairs [OF d m, of "[60, 30, 120]" "[1000, 10000, 1000]" lin spl]
    by (simp add: u arcmin_def GeV_def np_log10_def)
  then show ?thesis
    by (intro exI [of _ t]) (simp add: t)
qed

text \<open>
  C5. A query of one offset and one positive energy whose point
  \<open>(offset in degree, log10 (energy in TeV))\<close> lies outside the convex hull of the
  linear interpolator's points. With the interpolants as the specification describes them,
  \<^verbatim>\<open>evaluate\<close> with the linear method returns NaN as a value, tagged with the area unit:
  it raises nothing and puts no boundary value in its place. With the spline method it
  returns the number the spline surface has at that point.
\<close>

theorem evaluate_outside_hull:
  assumes "dims uo = angle_dims" and "dims ue = energy_dims"
    and "0 < e * scale ue"
    and "\<not> in_hull (finite_points (lin_points (priv_linear self)))
               (x * scale uo, log 10 (e * scale ue))"
  shows "(priv_interpolation_method self = ''linear'' \<longrightarrow>
            evaluate (LinearNDInterpolator_value bary) (RectBivariateSpline_value surf) self
              (Angle \<lparr>q_value = Scalar x, q_unit = uo\<rparr>)
              (Quantity \<lparr>q_value = Scalar e, q_unit = ue\<rparr>)
            = Inr \<lparr>q_value = Arr0 NaN, q_unit = q_unit (eff_area self)\<rparr>)
       \<and> (priv_interpolation_method self = ''spline'' \<longrightarrow>
            evaluate (LinearNDInterpolator_value bary) (RectBivariateSpline_value surf) self
              (Angle \<lparr>q_value = Scalar x, q_unit = uo\<rparr>)
              (Quantity \<lparr>q_value = Scalar e, q_unit = ue\<rparr>)
            = Inr \<lparr>q_value = Arr0 (Fin (surf (priv_spline self) (x * scale uo)
                                            (log 10 (e * scale ue)))),
                   q_unit = q_unit (eff_area self)\<rparr>)"
  using assms
  by (simp add: evaluate_def bind_def q_to_def degree_def TeV_def RectBivariateSpline_call_def
      np_log10_def LinearNDInterpolator_value_def RectBivariateSpline_value_def)

theorem evaluate_outside_hull_witness:
  "\<exists>t. OffsetDependentTableEffectiveArea_init grid_energ_lo grid_energ_hi grid_offset_lo
          grid_offset_hi grid_eff_area grid_eff_area = Inr t
       \<and> (\<forall>bary surf.
            evaluate (LinearNDInterpolator_value bary) (RectBivariateSpline_value surf) t
              (Angle \<lparr>q_value = Scalar 10, q_unit = degree\<rparr>)
              (Quantity \<lparr>q_value = Scalar 10, q_unit = TeV\<rparr>)
            = Inr \<lparr>q_value = Arr0 NaN, q_unit = m2\<rparr>
          \<and> evaluate (LinearNDInterpolator_value bary) (RectBivariateSpline_value surf)
              (snd (set_interpolation_method t ''spline''))
              (Angle \<lparr>q_value = Scalar 10, q_unit = degree\<rparr>)
              (Quantity \<lparr>q_value = Scalar 10, q_unit = TeV\<rparr>)
            = Inr \<lparr>q_value = Arr0 (Fin (surf (priv_spline t) 10 1)), q_unit = m2\<rparr>)"
proof -
  from grid_init obtain t where
    t: "OffsetDependentTableEffectiveArea_init grid_energ_lo grid_energ_hi grid_offset_lo
          grid_offset_hi grid_eff_area grid_eff_area = Inr t"
    and x: "offset t = \<lparr>q_value = [1 / 2, 3 / 2, 5 / 2, 7 / 2], q_unit = degree\<rparr>"
    by blast
  let ?s = "snd (set_interpolation_method t ''spline'')"
  have L: "lin_points (priv_linear t)
           = [(xx, yy). xx \<leftarrow> q_value (offset t), yy \<leftarrow> map np_log10_fl (q_value (energy t))]"
    and m: "priv_interpolation_method t = ''linear''"
    using t by (rule init_data)+
  have u: "q_unit (eff_area t) = m2"
    using t by (rule init_area_unit)
  have "\<forall>p \<in> set (lin_points (priv_linear t)). fst p \<le> 7 / 2"
    by (auto simp: L x)
  then have "\<forall>p \<in> set (finite_points (lin_points (priv_linear t))). fst p \<le> 7 / 2"
    by (rule finite_points_fst_le)
  then have out: "\<not> in_hull (finite_points (lin_points (priv_linear t))) (10, 1)"
    using in_hull_fst_le [of "finite_points (lin_points (priv_linear t))" "(10, 1)" "7 / 2"]
    by auto
  have d: "dims degree = angle_dims" "dims TeV = energy_dims"
    by (simp_all add: degree_def TeV_def)
  have s: "priv_linear ?s = priv_linear t" "priv_spline ?s = priv_spline t"
    "eff_area ?s = eff_area t" "priv_interpolation_method ?s = ''spline''"
    by (simp_all add: set_interpolation_method_def)
  have sc: "scale degree = 1" "scale TeV = 1"
    by (simp_all add: degree_def TeV_def)
  have 1: "evaluate (LinearNDInterpolator_value bary) (RectBivariateSpline_value surf) t
              (Angle \<lparr>q_value = Scalar 10, q_unit = degree\<rparr>)
              (Quantity \<lparr>q_value = Scalar 10, q_unit = TeV\<rparr>)
            = Inr \<lparr>q_value = Arr0 NaN, q_unit = m2\<rparr>" for bary surf
    using evaluate_outside_hull [OF d, where e = 10 and x = 10 and self = t and bary = bary
        and surf = surf] out m
    by (simp add: sc u)
  have 2: "evaluate (LinearNDInterpolator_value bary) (RectBivariateSpline_value surf) ?s
              (Angle \<lparr>q_value = Scalar 10, q_unit = degree\<rparr>)
              (Quantity \<lparr>q_value = Scalar 10, q_unit = TeV\<rparr>)
            = Inr \<lparr>q_value = Arr0 (Fin (surf (priv_spline t) 10 1)), q_unit = m2\<rparr>"
    for bary surf
    using evaluate_outside_hull [OF d, where e = 10 and x = 10 and self = ?s and bary = bary
        and surf = surf] out
    by (simp add: sc u s)
  show ?thesis
    by (intro exI [of _ t]) (simp add: t 1 2)
qed

end
